theory Spec2Isabelle
  imports Complex_Main
begin

section \<open>Python values, exceptions and sequences\<close>

text \<open>
  The notebook \<^verbatim>\<open>Clustering algorithm comparison.ipynb\<close> is glue code around numpy,
  scikit-learn, hdbscan, seaborn and matplotlib. Its own code is embedded here cell by
  cell; every library routine is a field of the record \<open>library\<close> below and is never
  given a body. An exception is a value of type \<open>error\<close>, and a computation that may
  raise returns \<open>error + 'a\<close> with \<open>Inl\<close> for the exception.
\<close>

datatype error =
    IndexError
  | ValueError
  | TypeError
  | FileNotFoundError
  | LibraryError string

datatype pyval = PInt int | PFloat real | PBool bool | PStr string

type_synonym colour = "real \<times> real \<times> real"

type_synonym bytes = string

text \<open>
  Subscription \<^verbatim>\<open>xs[i]\<close> of a Python list (and of the first axis of an array): a
  negative index counts from the end, and an index outside the sequence raises
  \<^verbatim>\<open>IndexError\<close>.
\<close>

definition py_index :: "'a list \<Rightarrow> int \<Rightarrow> error + 'a" where
  "py_index xs i =
     (let n = int (length xs);
          j = (if i < 0 then i + n else i)
      in if 0 \<le> j \<and> j < n then Inr (xs ! nat j) else Inl IndexError)"

text \<open>
  A list comprehension evaluates its element expressions from left to right and stops
  at the first one that raises.
\<close>

fun comprehension :: "(error + 'a) list \<Rightarrow> error + 'a list" where
  "comprehension [] = Inr []"
| "comprehension (Inl e # rs) = Inl e"
| "comprehension (Inr v # rs) =
     (case comprehension rs of Inl e \<Rightarrow> Inl e | Inr vs \<Rightarrow> Inr (v # vs))"

text \<open>
  \<^verbatim>\<open>np.unique(labels)\<close> is the sorted array of the distinct values, and \<^verbatim>\<open>.max()\<close> of
  an empty array raises \<^verbatim>\<open>ValueError\<close>.
\<close>

definition np_unique :: "int list \<Rightarrow> int list" where
  "np_unique xs = sort (remdups xs)"

definition np_max :: "int list \<Rightarrow> error + int" where
  "np_max xs = (case xs of [] \<Rightarrow> Inl ValueError | y # ys \<Rightarrow> Inr (fold max ys y))"

text \<open>
  \<^verbatim>\<open>str(n)\<close> of a non-negative integer, and \<^verbatim>\<open>'{:.2f}'.format(x)\<close>: the decimal
  expansion of \<open>x\<close> rounded to two places, ties to the even neighbour, with the sign
  of \<open>x\<close>. Floats are modelled by the real number they denote: a timestamp of
  \<^verbatim>\<open>time.time()\<close>, a coordinate, a colour channel.
\<close>

definition digit :: "nat \<Rightarrow> char" where
  "digit d = ''0123456789'' ! d"

fun show_nat :: "nat \<Rightarrow> string" where
  "show_nat n = (if n < 10 then [digit n] else show_nat (n div 10) @ [digit (n mod 10)])"


definition round_half_even :: "real \<Rightarrow> int" where
  "round_half_even x =
     (let m = \<lfloor>x\<rfloor>; r = x - of_int m
      in if r < 1 / 2 then m
         else if 1 / 2 < r then m + 1
         else if even m then m else m + 1)"

definition format_2f :: "real \<Rightarrow> string" where
  "format_2f x =
     (let q = nat (round_half_even (\<bar>x\<bar> * 100))
      in (if x < 0 then ''-'' else [])
         @ show_nat (q div 100) @ ''.'' @ [digit (q div 10 mod 10), digit (q mod 10)])"

section \<open>Arrays\<close>

text \<open>
  A rank-2 numpy array of floats: its rows, and the length of its second axis (which
  an array with no rows still has). \<^verbatim>\<open>a.T\<close> swaps the axes, \<^verbatim>\<open>a[i]\<close> is
  subscription on the first axis, and \<^verbatim>\<open>*a\<close> in a call passes the rows of \<open>a\<close> as
  positional arguments.
\<close>

record ndarray =
  ncols :: nat
  rows :: "real list list"

definition wf_ndarray :: "ndarray \<Rightarrow> bool" where
  "wf_ndarray a = (\<forall>r \<in> set (rows a). length r = ncols a)"

definition column :: "ndarray \<Rightarrow> nat \<Rightarrow> real list" where
  "column a j = map (\<lambda>r. r ! j) (rows a)"

definition ndarray_T :: "ndarray \<Rightarrow> ndarray" where
  "ndarray_T a = \<lparr>ncols = length (rows a), rows = map (column a) [0..<ncols a]\<rparr>"

definition getitem :: "ndarray \<Rightarrow> int \<Rightarrow> error + real list" where
  "getitem a i = py_index (rows a) i"

definition ndarray_sub :: "ndarray \<Rightarrow> real \<Rightarrow> ndarray" where
  "ndarray_sub a c = a\<lparr>rows := map (map (\<lambda>v. v - c)) (rows a)\<rparr>"

section \<open>The libraries and the world\<close>

datatype algo =
    KMeans
  | AffinityPropagation
  | MeanShift
  | SpectralClustering
  | AgglomerativeClustering
  | DBSCAN
  | HDBSCAN

fun algo_name :: "algo \<Rightarrow> string" where
  "algo_name KMeans = ''KMeans''"
| "algo_name AffinityPropagation = ''AffinityPropagation''"
| "algo_name MeanShift = ''MeanShift''"
| "algo_name SpectralClustering = ''SpectralClustering''"
| "algo_name AgglomerativeClustering = ''AgglomerativeClustering''"
| "algo_name DBSCAN = ''DBSCAN''"
| "algo_name HDBSCAN = ''HDBSCAN''"

type_synonym args = "pyval list"
type_synonym kwargs = "(string \<times> pyval) list"

text \<open>A fitted HDBSCAN object, as far as the notebook reads it.\<close>

record clusterer =
  hdb_labels :: "int list"
  hdb_probabilities :: "real list"

type_synonym files = "string \<rightharpoonup> bytes"

datatype colours_arg = Named string | Colours "colour list"

text \<open>
  The external routines. \<open>time_time n\<close> is the reading of the \<open>n\<close>-th call of
  \<^verbatim>\<open>time.time()\<close>, \<open>random_sample n\<close> the \<open>n\<close>-th float drawn by
  \<^verbatim>\<open>np.random.random\<close>. \<open>construct\<close> tells what the constructor of an estimator
  raises on its arguments, if anything; \<open>fit_predict\<close> and \<open>fit\<close> stand for calling the
  method on the data, for the estimator constructed from these arguments. \<open>np_load\<close>
  decodes the contents of a file, \<open>plt_scatter\<close> tells what \<^verbatim>\<open>scatter\<close> raises on its
  arguments (matplotlib refuses colours that do not match the points), and \<open>wget\<close> gives
  the bytes that the download of a URL leaves in its output file.

  The script \<^verbatim>\<open>sklearn-cluster-demo.py\<close> that the notebook runs is not among the
  sources. It is a parameter: \<open>run_script name\<close> takes the files on disk to what
  \<^verbatim>\<open>%run name\<close> raises, if anything, and the files it leaves. What the script fits or
  draws is not known and is not recorded.
\<close>

record library =
  time_time :: "nat \<Rightarrow> real"
  random_sample :: "nat \<Rightarrow> real"
  construct :: "algo \<Rightarrow> args \<Rightarrow> kwargs \<Rightarrow> error + unit"
  fit_predict :: "algo \<Rightarrow> args \<Rightarrow> kwargs \<Rightarrow> ndarray \<Rightarrow> error + int list"
  fit :: "algo \<Rightarrow> args \<Rightarrow> kwargs \<Rightarrow> ndarray \<Rightarrow> error + clusterer"
  approximate_predict :: "clusterer \<Rightarrow> ndarray \<Rightarrow> error + (int list \<times> real list)"
  np_load :: "bytes \<Rightarrow> error + ndarray"
  sns_color_palette :: "string \<Rightarrow> int \<Rightarrow> colour list"
  sns_desaturate :: "colour \<Rightarrow> real \<Rightarrow> error + colour"
  plt_scatter :: "real list \<Rightarrow> real list \<Rightarrow> colours_arg \<Rightarrow> kwargs \<Rightarrow> error + unit"
  wget :: "string \<Rightarrow> bytes"
  run_script :: "string \<Rightarrow> files \<Rightarrow> (error + unit) \<times> files"

text \<open>
  What a run does, as far as it can be seen from outside: the calls to the clock, the
  libraries and the figure, and the exception that ends it. \<open>NpLoad name b\<close> is
  \<^verbatim>\<open>np.load\<close> of the file \<open>name\<close> when it holds \<open>b\<close>.
\<close>

datatype event =
    Clock real
  | SnsSet kwargs
  | SnsSetColorCodes
  | RunScript string
  | NpLoad string bytes
  | Construct algo args kwargs
  | FitPredictCall algo args kwargs ndarray
  | FitCall algo args kwargs ndarray
  | ApproximatePredictCall clusterer ndarray
  | Figure nat nat
  | AddSubplot nat nat nat
  | Scatter "real list" "real list" colours_arg kwargs
  | AxisVisible string bool
  | Text real real string kwargs
  | TightLayout
  | Legend
  | CondensedTreePlot kwargs "colour list"
  | CondensedTreeTable
  | Raised error

text \<open>
  The world a cell runs in: the files on disk, the number of clock readings taken so
  far, and the events so far, oldest first.
\<close>

record world =
  fs :: files
  ticks :: nat
  log :: "event list"

type_synonym 'a prog = "world \<Rightarrow> (error + 'a) \<times> world"

text \<open>
  Statements run one after the other; an exception ends the run where it is raised.
  No cell of the notebook has a \<^verbatim>\<open>try\<close> statement, so there is no operation that
  takes a raised exception back.
\<close>

definition seq :: "'a prog \<Rightarrow> ('a \<Rightarrow> 'b prog) \<Rightarrow> 'b prog" where
  "seq m f w = (case m w of (Inl e, w') \<Rightarrow> (Inl e, w') | (Inr a, w') \<Rightarrow> f a w')"

definition py_raise :: "error \<Rightarrow> 'a prog" where
  "py_raise e w = (Inl e, w\<lparr>log := log w @ [Raised e]\<rparr>)"

text \<open>The value of an expression that may raise, and a library call that may raise.\<close>

definition lift :: "error + 'a \<Rightarrow> 'a prog" where
  "lift r w = (case r of Inl e \<Rightarrow> py_raise e w | Inr a \<Rightarrow> (Inr a, w))"

definition emit :: "event \<Rightarrow> unit prog" where
  "emit e w = (Inr (), w\<lparr>log := log w @ [e]\<rparr>)"

definition call :: "event \<Rightarrow> error + 'a \<Rightarrow> 'a prog" where
  "call c r w = lift r (w\<lparr>log := log w @ [c]\<rparr>)"

definition py_time :: "library \<Rightarrow> real prog" where
  "py_time lib w =
     (Inr (time_time lib (ticks w)),
      w\<lparr>ticks := Suc (ticks w), log := log w @ [Clock (time_time lib (ticks w))]\<rparr>)"

text \<open>A \<^verbatim>\<open>for\<close> loop whose body binds nothing that is read after the loop.\<close>

fun for_each :: "('a \<Rightarrow> unit prog) \<Rightarrow> 'a list \<Rightarrow> unit prog" where
  "for_each body [] w = (Inr (), w)"
| "for_each body (x # xs) w =
     (case body x w of (Inl e, w') \<Rightarrow> (Inl e, w') | (Inr u, w') \<Rightarrow> for_each body xs w')"

text \<open>
  \<^verbatim>\<open>scatter(*a, s=..., ...)\<close>: the rows of \<open>a\<close> are bound to the positional parameters
  \<^verbatim>\<open>x, y, s, ...\<close> of \<^verbatim>\<open>scatter\<close>. Every such call of the notebook also passes \<^verbatim>\<open>s\<close> by
  keyword, so anything but two rows is a \<^verbatim>\<open>TypeError\<close>.
\<close>

definition scatter_star :: "library \<Rightarrow> ndarray \<Rightarrow> colours_arg \<Rightarrow> kwargs \<Rightarrow> unit prog" where
  "scatter_star lib a c kw =
     (case rows a of
        [x, y] \<Rightarrow> call (Scatter x y c kw) (plt_scatter lib x y c kw)
      | _ \<Rightarrow> py_raise TypeError)"

text \<open>\<^verbatim>\<open>scatter(data.T[0], data.T[1], c=..., ...)\<close>\<close>

definition scatter_T01 :: "library \<Rightarrow> ndarray \<Rightarrow> colours_arg \<Rightarrow> kwargs \<Rightarrow> unit prog" where
  "scatter_T01 lib a c kw =
     seq (lift (getitem (ndarray_T a) 0)) (\<lambda>x.
     seq (lift (getitem (ndarray_T a) 1)) (\<lambda>y.
     call (Scatter x y c kw) (plt_scatter lib x y c kw)))"

text \<open>
  \<^verbatim>\<open>algo(*args, **kwargs).fit_predict(data)\<close> and \<^verbatim>\<open>algo(*args, **kwargs).fit(data)\<close>:
  the estimator is constructed, then its method is called.
\<close>

definition construct_fit_predict ::
  "library \<Rightarrow> algo \<Rightarrow> args \<Rightarrow> kwargs \<Rightarrow> ndarray \<Rightarrow> int list prog" where
  "construct_fit_predict lib algo args kw data =
     seq (call (Construct algo args kw) (construct lib algo args kw)) (\<lambda>_.
     call (FitPredictCall algo args kw data) (fit_predict lib algo args kw data))"

definition construct_fit ::
  "library \<Rightarrow> algo \<Rightarrow> args \<Rightarrow> kwargs \<Rightarrow> ndarray \<Rightarrow> clusterer prog" where
  "construct_fit lib algo args kw data =
     seq (call (Construct algo args kw) (construct lib algo args kw)) (\<lambda>_.
     call (FitCall algo args kw data) (fit lib algo args kw data))"

section \<open>The cells of the notebook\<close>

text \<open>
  Each code cell is a function of the variables it reads, in the order of the
  notebook. The raw cell is not executed and is left out.
\<close>

subsection \<open>Imports and the demonstration script\<close>




subsection \<open>Getting and showing the data\<close>







subsection \<open>The comparison of the algorithms\<close>

definition algo_combos :: "(algo \<times> args \<times> kwargs) list" where
  "algo_combos =
     [(KMeans, [], [(''n_clusters'', PInt 6)]),
      (AffinityPropagation, [], [(''preference'', PFloat (- 5)), (''damping'', PFloat 0.95)]),
      (MeanShift, [PFloat 0.175], [(''cluster_all'', PBool False)]),
      (SpectralClustering, [], [(''n_clusters'', PInt 6)]),
      (AgglomerativeClustering, [], [(''n_clusters'', PInt 6), (''linkage'', PStr ''ward'')]),
      (DBSCAN, [], [(''eps'', PFloat 0.025)]),
      (HDBSCAN, [], [(''min_cluster_size'', PInt 15)])]"

definition plot_kwds :: kwargs where
  "plot_kwds = [(''alpha'', PFloat 0.25), (''s'', PInt 60), (''linewidths'', PInt 0)]"

text \<open>\<^verbatim>\<open>colors = [palette[x] if x >= 0 else (0.0, 0.0, 0.0) for x in labels]\<close>\<close>

definition colors :: "colour list \<Rightarrow> int list \<Rightarrow> error + colour list" where
  "colors palette labels =
     comprehension (map (\<lambda>x. if x \<ge> 0 then py_index palette x else Inr (0, 0, 0)) labels)"

text \<open>The body of the loop over \<^verbatim>\<open>enumerate(algo_combos, start=1)\<close>.\<close>

definition fit_and_plot :: "library \<Rightarrow> ndarray \<Rightarrow> nat \<times> algo \<times> args \<times> kwargs \<Rightarrow> unit prog" where
  "fit_and_plot lib data = (\<lambda>(i, algo, args, algo_kwargs).
     seq (py_time lib) (\<lambda>start_time.
     seq (construct_fit_predict lib algo args algo_kwargs data) (\<lambda>labels.
     seq (py_time lib) (\<lambda>end_time.
     seq (lift (np_max (np_unique labels))) (\<lambda>m.
     seq (lift (colors (sns_color_palette lib ''deep'' (m + 1)) labels)) (\<lambda>cs.
     seq (emit (AddSubplot 4 2 i)) (\<lambda>_.
     seq (scatter_T01 lib data (Colours cs) plot_kwds) (\<lambda>_.
     seq (emit (AxisVisible ''x'' False)) (\<lambda>_.
     seq (emit (AxisVisible ''y'' False)) (\<lambda>_.
     emit (Text (- 0.5) 0.67
             (algo_name algo @ '': '' @ format_2f (end_time - start_time) @ '' s'')
             [(''fontsize'', PInt 20)])))))))))))"

definition compare_algos :: "library \<Rightarrow> ndarray \<Rightarrow> unit prog" where
  "compare_algos lib data =
     seq (emit (Figure 20 20)) (\<lambda>_.
     seq (for_each (fit_and_plot lib data) (enumerate 1 algo_combos)) (\<lambda>_.
     emit TightLayout))"

subsection \<open>HDBSCAN on its own\<close>

text \<open>
  \<^verbatim>\<open>hdbs = hdbscan.HDBSCAN(min_cluster_size=20)\<close> and
  \<^verbatim>\<open>labels = hdbs.fit_predict(data)\<close>
\<close>

definition hdbs_kwargs :: kwargs where
  "hdbs_kwargs = [(''min_cluster_size'', PInt 20)]"







subsection \<open>The effect of \<^verbatim>\<open>min_samples\<close>\<close>

definition min_sample_vals :: "int list" where
  "min_sample_vals = [1, 10, 20, 50]"

definition min_samples_kwargs :: "int \<Rightarrow> kwargs" where
  "min_samples_kwargs minsamp = [(''min_cluster_size'', PInt 50), (''min_samples'', PInt minsamp)]"



subsection \<open>Prediction\<close>

text \<open>\<^verbatim>\<open>hdbs = hdbscan.HDBSCAN(min_cluster_size=20, prediction_data=True).fit(data)\<close>\<close>

definition prediction_kwargs :: kwargs where
  "prediction_kwargs = [(''min_cluster_size'', PInt 20), (''prediction_data'', PBool True)]"


text \<open>
  \<^verbatim>\<open>np.random.random(size=(n, m))\<close> fills an array of \<open>n\<close> rows and \<open>m\<close> columns, row
  by row, with the floats drawn; \<^verbatim>\<open>test_points\<close> is that array of shape \<open>(50, 2)\<close>
  less \<open>0.5\<close>.
\<close>

definition np_random_random :: "library \<Rightarrow> nat \<times> nat \<Rightarrow> ndarray" where
  "np_random_random lib = (\<lambda>(n, m).
     \<lparr>ncols = m, rows = map (\<lambda>i. map (\<lambda>j. random_sample lib (i * m + j)) [0..<m]) [0..<n]\<rparr>)"

definition test_points :: "library \<Rightarrow> ndarray" where
  "test_points lib = ndarray_sub (np_random_random lib (50, 2)) 0.5"

text \<open>
  \<^verbatim>\<open>cluster_colors = [sns.desaturate(color_palette[col], sat)
     for col, sat in zip(hdbs.labels_, hdbs.probabilities_)]\<close>: here the palette is
  subscripted by every label, the noise label \<open>-1\<close> too.
\<close>

definition desaturated_colors ::
  "library \<Rightarrow> colour list \<Rightarrow> int list \<Rightarrow> real list \<Rightarrow> error + colour list" where
  "desaturated_colors lib palette labels probabilities =
     comprehension
       (map (\<lambda>(col, sat).
               case py_index palette col of
                 Inl e \<Rightarrow> Inl e
               | Inr c \<Rightarrow> sns_desaturate lib c sat)
            (zip labels probabilities))"




text \<open>
  \<^verbatim>\<open>test_colors = [color_palette[col] if col >= 0 else (0.1, 0.1, 0.1)
     for col in test_labels]\<close>
\<close>

definition test_colors :: "colour list \<Rightarrow> int list \<Rightarrow> error + colour list" where
  "test_colors palette test_labels =
     comprehension
       (map (\<lambda>col. if col \<ge> 0 then py_index palette col else Inr (0.1, 0.1, 0.1))
            test_labels)"



subsection \<open>The notebook, run from top to bottom\<close>




section \<open>A small library to run the notebook with\<close>

text \<open>
  A stand-in for the libraries on which the cells can be evaluated: three points in the
  plane, a clock that advances by a quarter of a second per reading, estimators that
  label the first point as noise and the others by position, a palette of as many
  colours as asked for, a \<^verbatim>\<open>scatter\<close> that wants one colour per point, and a script
  that does nothing.
\<close>

definition demo_data :: ndarray where
  "demo_data = \<lparr>ncols = 2, rows = [[0, 1], [2, 3], [4, 5]]\<rparr>"

definition demo_labels :: "ndarray \<Rightarrow> int list" where
  "demo_labels d = map (\<lambda>i. int i - 1) [0..<length (rows d)]"

definition demo_library :: library where
  "demo_library =
     \<lparr>time_time = (\<lambda>n. real n / 4),
      random_sample = (\<lambda>n. real (n mod 4) / 4),
      construct = (\<lambda>algo args kw. Inr ()),
      fit_predict = (\<lambda>algo args kw d. Inr (demo_labels d)),
      fit = (\<lambda>algo args kw d.
               Inr \<lparr>hdb_labels = demo_labels d, hdb_probabilities = map (\<lambda>_. 1) (rows d)\<rparr>),
      approximate_predict = (\<lambda>m pts. Inr (map (\<lambda>_. - 1) (rows pts), map (\<lambda>_. 0) (rows pts))),
      np_load = (\<lambda>b. if b = ''demo'' then Inr demo_data else Inl ValueError),
      sns_color_palette = (\<lambda>name n. map (\<lambda>k. (real k / 16, 0, 1)) [0..<nat n]),
      sns_desaturate = (\<lambda>c p. if 0 \<le> p \<and> p \<le> 1 then Inr c else Inl ValueError),
      plt_scatter = (\<lambda>x y c kw.
        case c of Named n \<Rightarrow> Inr ()
        | Colours cs \<Rightarrow> if length cs = length x then Inr () else Inl ValueError),
      wget = (\<lambda>url. ''demo''),
      run_script = (\<lambda>name files. (Inr (), files))\<rparr>"

text \<open>
  The same library with an estimator that runs out of memory: \<^verbatim>\<open>fit_predict\<close> of
  MeanShift.
\<close>

definition failing_library :: library where
  "failing_library =
     demo_library
     \<lparr>fit_predict := (\<lambda>algo args kw d.
        if algo = MeanShift then Inl (LibraryError ''MemoryError'') else Inr (demo_labels d))\<rparr>"

text \<open>The same library with a file of points in space: three coordinates each.\<close>

definition wide_data :: ndarray where
  "wide_data = \<lparr>ncols = 3, rows = [[0, 1, 9], [2, 3, 9], [4, 5, 9]]\<rparr>"

definition wide_library :: library where
  "wide_library = demo_library\<lparr>np_load := (\<lambda>b. Inr wide_data)\<rparr>"

definition empty_world :: world where
  "empty_world = \<lparr>fs = Map.empty, ticks = 0, log = []\<rparr>"

section \<open>Observations of a run\<close>


text \<open>The events a run adds to the log.\<close>

definition new_events :: "world \<Rightarrow> world \<Rightarrow> event list" where
  "new_events w w' = drop (length (log w)) (log w')"

fun is_fit_predict :: "event \<Rightarrow> bool" where
  "is_fit_predict (FitPredictCall algo args kw data) = True"
| "is_fit_predict e = False"

fun is_text :: "event \<Rightarrow> bool" where
  "is_text (Text x y s kw) = True"
| "is_text e = False"


text \<open>A program emits only events of a kind when every run of it adds only such events.\<close>

definition emits_only :: "(event \<Rightarrow> bool) \<Rightarrow> 'a prog \<Rightarrow> bool" where
  "emits_only P m = (\<forall>w r w'. m w = (r, w') \<longrightarrow> (\<exists>es. log w' = log w @ es \<and> list_all P es))"

text \<open>
  What one iteration of the comparison adds to the log when nothing raises: \<open>t\<close> is the
  number of clock readings before it, \<open>x\<close> and \<open>y\<close> are the coordinates and \<open>cs\<close> the
  colours it plots.
\<close>

definition iteration_log ::
  "library \<Rightarrow> ndarray \<Rightarrow> nat \<Rightarrow> nat \<Rightarrow> algo \<times> args \<times> kwargs
     \<Rightarrow> real list \<Rightarrow> real list \<Rightarrow> colour list \<Rightarrow> event list" where
  "iteration_log lib data t i = (\<lambda>(algo, args, kw) x y cs.
     [Clock (time_time lib t),
      Construct algo args kw,
      FitPredictCall algo args kw data,
      Clock (time_time lib (Suc t)),
      AddSubplot 4 2 i,
      Scatter x y (Colours cs) plot_kwds,
      AxisVisible ''x'' False,
      AxisVisible ''y'' False,
      Text (- 0.5) 0.67
        (algo_name algo @ '': '' @ format_2f (time_time lib (Suc t) - time_time lib t) @ '' s'')
        [(''fontsize'', PInt 20)]])"




text \<open>
  An event uses two arrays by their first two columns when a scatter plot in it takes
  its coordinates from the first and the second column of one of them, a fit is given
  the first array, and a prediction the second.
\<close>

fun uses_two_columns :: "ndarray \<Rightarrow> ndarray \<Rightarrow> event \<Rightarrow> bool" where
  "uses_two_columns data points (Scatter x y c kw) =
     (x = column data 0 \<and> y = column data 1 \<or> x = column points 0 \<and> y = column points 1)"
| "uses_two_columns data points (FitPredictCall algo args kw d) = (d = data)"
| "uses_two_columns data points (FitCall algo args kw d) = (d = data)"
| "uses_two_columns data points (ApproximatePredictCall hdbs p) = (p = points)"
| "uses_two_columns data points e = True"

text \<open>
  The exception that a library call raises, if any, and the shape of a run in which
  nothing is caught: the run goes on after a call that returns, and a call that raises
  is followed by the record of its exception and by nothing else.
\<close>

definition error_of :: "error + 'a \<Rightarrow> error option" where
  "error_of r = (case r of Inl e \<Rightarrow> Some e | Inr a \<Rightarrow> None)"



text \<open>The exception that a run ended with, read off the events it added.\<close>

definition raised :: "event list \<Rightarrow> error option" where
  "raised es = (case rev es of Raised e # es' \<Rightarrow> Some e | _ \<Rightarrow> None)"


text \<open>
  The colours of a scatter plot that is coloured point by point, and how the notebook
  is to colour the labels of an estimator: every label that is not negative by its
  entry in the palette, every negative label by the colour for noise.
\<close>

fun point_colours :: "event \<Rightarrow> colour list option" where
  "point_colours (Scatter x y (Colours cs) kw) = Some cs"
| "point_colours e = None"

definition coloured_like :: "colour list \<Rightarrow> colour \<Rightarrow> int list \<Rightarrow> colour list \<Rightarrow> bool" where
  "coloured_like palette noise labels cs =
     (length cs = length labels \<and>
      (\<forall>i < length labels.
         if 0 \<le> labels ! i
         then nat (labels ! i) < length palette \<and> cs ! i = palette ! nat (labels ! i)
         else cs ! i = noise))"

text \<open>
  The colours of the cell that desaturates: one for each pair of a label and a
  probability, the palette entry of the label (a negative label counts from the end of
  the palette) as \<^verbatim>\<open>sns.desaturate\<close> returns it for the probability.
\<close>

definition desaturated_like ::
  "library \<Rightarrow> colour list \<Rightarrow> int list \<Rightarrow> real list \<Rightarrow> colour list \<Rightarrow> bool" where
  "desaturated_like lib palette labels probabilities cs =
     (length cs = min (length labels) (length probabilities) \<and>
      (\<forall>i < length cs.
         let l = labels ! i; j = (if l < 0 then l + int (length palette) else l)
         in 0 \<le> j \<and> j < int (length palette) \<and>
            sns_desaturate lib (palette ! nat j) (probabilities ! i) = Inr (cs ! i)))"

text \<open>
  The colours \<open>cs\<close> are those of labels that a library routine returned for the data:
  \<^verbatim>\<open>fit_predict\<close> of an entry of \<^verbatim>\<open>algo_combos\<close>, \<^verbatim>\<open>fit_predict\<close> of HDBSCAN on its own,
  \<^verbatim>\<open>fit\<close> for a value of \<^verbatim>\<open>min_samples\<close>, \<^verbatim>\<open>fit\<close> with prediction data, or
  \<^verbatim>\<open>approximate_predict\<close> on the test points.
\<close>

definition coloured_by_library :: "library \<Rightarrow> ndarray \<Rightarrow> colour list \<Rightarrow> bool" where
  "coloured_by_library lib data cs =
     ((\<exists>(algo, args, kw) \<in> set algo_combos.
         case fit_predict lib algo args kw data of
           Inl e \<Rightarrow> False
         | Inr labels \<Rightarrow>
             coloured_like (sns_color_palette lib ''deep'' (Max (set labels) + 1)) (0, 0, 0)
               labels cs)
    \<or> (case fit_predict lib HDBSCAN [] hdbs_kwargs data of
           Inl e \<Rightarrow> False
         | Inr labels \<Rightarrow>
             coloured_like (sns_color_palette lib ''deep'' (int (length (np_unique labels))))
               (0.5, 0.5, 0.5) labels cs)
    \<or> (\<exists>minsamp \<in> set min_sample_vals.
         case fit lib HDBSCAN [] (min_samples_kwargs minsamp) data of
           Inl e \<Rightarrow> False
         | Inr clusterer \<Rightarrow>
             coloured_like
               (sns_color_palette lib ''deep'' (int (length (hdb_labels clusterer))))
               (0.5, 0.5, 0.5) (hdb_labels clusterer) cs)
    \<or> (case fit lib HDBSCAN [] prediction_kwargs data of
           Inl e \<Rightarrow> False
         | Inr hdbs \<Rightarrow>
             desaturated_like lib (sns_color_palette lib ''deep'' 12)
               (hdb_labels hdbs) (hdb_probabilities hdbs) cs
           \<or> (case approximate_predict lib hdbs (test_points lib) of
                 Inl e \<Rightarrow> False
               | Inr (test_labels, strengths) \<Rightarrow>
                   coloured_like (sns_color_palette lib ''deep'' 12) (0.1, 0.1, 0.1)
                     test_labels cs)))"

definition labels_from_library :: "library \<Rightarrow> ndarray \<Rightarrow> event \<Rightarrow> bool" where
  "labels_from_library lib data c =
     (case point_colours c of None \<Rightarrow> True | Some cs \<Rightarrow> coloured_by_library lib data cs)"

text \<open>
  What a run returns when no exception is caught anywhere. \<open>and_then\<close> passes the first
  exception on and \<open>first_failure\<close> is that of a loop; below them, the steps of each
  cell that can raise, in the order in which the cell takes them, down to the whole
  notebook on given files. The download always leaves its output file, so
  \<^verbatim>\<open>np.load\<close> finds it.
\<close>

definition and_then :: "error + 'a \<Rightarrow> ('a \<Rightarrow> error + 'b) \<Rightarrow> error + 'b" where
  "and_then r f = (case r of Inl e \<Rightarrow> Inl e | Inr a \<Rightarrow> f a)"

fun first_failure :: "('a \<Rightarrow> error + unit) \<Rightarrow> 'a list \<Rightarrow> error + unit" where
  "first_failure f [] = Inr ()"
| "first_failure f (x # xs) = and_then (f x) (\<lambda>_. first_failure f xs)"

definition scatter_T01_outcome ::
  "library \<Rightarrow> ndarray \<Rightarrow> colours_arg \<Rightarrow> kwargs \<Rightarrow> error + unit" where
  "scatter_T01_outcome lib a c kw =
     and_then (getitem (ndarray_T a) 0) (\<lambda>x.
     and_then (getitem (ndarray_T a) 1) (\<lambda>y.
     plt_scatter lib x y c kw))"

definition scatter_star_outcome ::
  "library \<Rightarrow> ndarray \<Rightarrow> colours_arg \<Rightarrow> kwargs \<Rightarrow> error + unit" where
  "scatter_star_outcome lib a c kw =
     (case rows a of [x, y] \<Rightarrow> plt_scatter lib x y c kw | _ \<Rightarrow> Inl TypeError)"

definition fitted_labels ::
  "library \<Rightarrow> algo \<Rightarrow> args \<Rightarrow> kwargs \<Rightarrow> ndarray \<Rightarrow> error + int list" where
  "fitted_labels lib algo args kw data =
     and_then (construct lib algo args kw) (\<lambda>_. fit_predict lib algo args kw data)"

definition fitted ::
  "library \<Rightarrow> algo \<Rightarrow> args \<Rightarrow> kwargs \<Rightarrow> ndarray \<Rightarrow> error + clusterer" where
  "fitted lib algo args kw data =
     and_then (construct lib algo args kw) (\<lambda>_. fit lib algo args kw data)"

definition fit_and_plot_outcome ::
  "library \<Rightarrow> ndarray \<Rightarrow> algo \<times> args \<times> kwargs \<Rightarrow> error + unit" where
  "fit_and_plot_outcome lib data = (\<lambda>(algo, args, kw).
     and_then (fitted_labels lib algo args kw data) (\<lambda>labels.
     and_then (np_max (np_unique labels)) (\<lambda>m.
     and_then (colors (sns_color_palette lib ''deep'' (m + 1)) labels) (\<lambda>cs.
     scatter_T01_outcome lib data (Colours cs) plot_kwds))))"




text \<open>
  What the iterations of the comparison add to the log, one after the other, for the
  entries of \<^verbatim>\<open>algo_combos\<close> that they work on paired with the colours that they plot:
  \<open>t\<close> is the number of clock readings before the first of them and \<open>i\<close> its subplot.
\<close>

fun comparison_log ::
  "library \<Rightarrow> ndarray \<Rightarrow> nat \<Rightarrow> nat \<Rightarrow> ((algo \<times> args \<times> kwargs) \<times> colour list) list
     \<Rightarrow> event list" where
  "comparison_log lib data t i [] = []"
| "comparison_log lib data t i ((c, cs) # rest) =
     iteration_log lib data t i c (column data 0) (column data 1) cs
     @ comparison_log lib data (Suc (Suc t)) (Suc i) rest"

section \<open>Properties\<close>

subsection \<open>Subscription, comprehensions and the largest label\<close>

lemma py_index_nonneg: "0 \<le> i \<Longrightarrow> py_index xs i = (if nat i < length xs then Inr (xs ! nat i) else Inl IndexError)"
  by (auto simp: py_index_def Let_def)

lemma comprehension_map_Inr_id: "comprehension (map Inr vs) = Inr vs"
  by (induction vs) auto

lemma comprehension_Inr_D: "comprehension rs = Inr vs \<Longrightarrow> rs = map Inr vs"
proof (induction rs arbitrary: vs)
  case Nil
  then show ?case by simp
next
  case (Cons r rs)
  show ?case
  proof (cases r)
    case (Inl e)
    with Cons.prems show ?thesis by simp
  next
    case (Inr v)
    with Cons.prems obtain us where "comprehension rs = Inr us" "vs = v # us"
      by (auto split: sum.splits)
    with Cons.IH Inr show ?thesis by simp
  qed
qed

lemma comprehension_map_Inr:
  "(\<And>x. x \<in> set xs \<Longrightarrow> f x = Inr (g x)) \<Longrightarrow> comprehension (map f xs) = Inr (map g xs)"
proof -
  assume "\<And>x. x \<in> set xs \<Longrightarrow> f x = Inr (g x)"
  then have "map f xs = map Inr (map g xs)" by simp
  then show ?thesis by (simp only: comprehension_map_Inr_id)
qed

lemma comprehension_Inl: "comprehension rs = Inl e \<Longrightarrow> Inl e \<in> set rs"
proof (induction rs)
  case Nil
  then show ?case by simp
next
  case (Cons r rs)
  then show ?case by (cases r) (auto split: sum.splits)
qed

lemma np_max_unique:
  "np_max (np_unique xs) = (if xs = [] then Inl ValueError else Inr (Max (set xs)))"
proof (cases "np_unique xs")
  case Nil
  then have "set (np_unique xs) = {}" by simp
  then have "xs = []" by (simp add: np_unique_def)
  with Nil show ?thesis by (simp add: np_max_def)
next
  case (Cons y ys)
  then have s: "set xs = set (y # ys)" by (metis np_unique_def set_remdups set_sort)
  then have "xs \<noteq> []" by auto
  moreover have "Max (set (y # ys)) = fold max ys y" by (rule Max.set_eq_fold)
  ultimately show ?thesis using Cons s by (simp add: np_max_def)
qed

subsection \<open>Colours of the comparison\<close>

text \<open>
  C8. In the comparison loop the colour lookup never goes out of bounds. The palette is
  asked for with \<open>m + 1\<close> entries, where \<open>m\<close> is the largest label (seaborn returns as
  many colours as it is asked for, which is the first hypothesis). The lookup
  \<^verbatim>\<open>palette[x]\<close> is evaluated only for labels \<open>x \<ge> 0\<close>, each of which is at most \<open>m\<close>
  and so a valid index; every negative label gets the fixed colour \<open>(0, 0, 0)\<close>. Hence
  the comprehension returns a colour for every label and raises nothing, also when
  every label is the noise label \<open>-1\<close> and the palette is empty.
\<close>

theorem comparison_palette_lookup_in_bounds:
  assumes len: "length (sns_color_palette lib ''deep'' (m + 1)) = nat (m + 1)"
    and m: "np_max (np_unique labels) = Inr m"
  shows "m = Max (set labels)
    \<and> (\<forall>x \<in> set labels. 0 \<le> x \<longrightarrow> x \<le> m \<and> nat x < length (sns_color_palette lib ''deep'' (m + 1)))
    \<and> colors (sns_color_palette lib ''deep'' (m + 1)) labels =
        Inr (map (\<lambda>x. if 0 \<le> x then sns_color_palette lib ''deep'' (m + 1) ! nat x else (0, 0, 0))
               labels)"
proof -
  from m have ne: "labels \<noteq> []" and mx: "m = Max (set labels)"
    by (auto simp: np_max_unique split: if_splits)
  have le: "x \<le> m" if "x \<in> set labels" for x
    using that mx by simp
  have bound: "nat x < length (sns_color_palette lib ''deep'' (m + 1))"
    if "x \<in> set labels" "0 \<le> x" for x
    using le [OF that(1)] that(2) len by simp
  have "colors (sns_color_palette lib ''deep'' (m + 1)) labels =
        Inr (map (\<lambda>x. if 0 \<le> x then sns_color_palette lib ''deep'' (m + 1) ! nat x else (0, 0, 0))
               labels)"
    unfolding colors_def
    by (rule comprehension_map_Inr) (simp add: py_index_nonneg bound)
  with mx le bound show ?thesis by blast
qed

theorem comparison_palette_lookup_in_bounds_witness:
  "np_max (np_unique [- 1, - 1]) = Inr (- 1)
   \<and> colors (sns_color_palette demo_library ''deep'' (- 1 + 1)) [- 1, - 1] = Inr [(0, 0, 0), (0, 0, 0)]
   \<and> np_max (np_unique [1, - 1, 0, 1]) = Inr 1
   \<and> colors (sns_color_palette demo_library ''deep'' (1 + 1)) [1, - 1, 0, 1] =
       Inr [(1 / 16, 0, 1), (0, 0, 0), (0, 0, 1), (1 / 16, 0, 1)]"
proof -
  have a: "np_max (np_unique [- 1, - 1]) = Inr (- 1)"
    by (simp add: np_max_def np_unique_def)
  have b: "np_max (np_unique [1, - 1, 0, 1]) = Inr 1"
    by (simp add: np_max_def np_unique_def)
  have la: "length (sns_color_palette demo_library ''deep'' (- 1 + 1)) = nat (- 1 + 1)"
    by (simp add: demo_library_def)
  have lb: "length (sns_color_palette demo_library ''deep'' (1 + 1)) = nat (1 + 1)"
    by (simp add: demo_library_def)
  show ?thesis
    using comparison_palette_lookup_in_bounds [OF la a]
      comparison_palette_lookup_in_bounds [OF lb b] a b
    by (simp add: demo_library_def)
qed

subsection \<open>Colours of the prediction\<close>

lemma py_index_Inr_iff:
  "(\<exists>v. py_index xs i = Inr v) \<longleftrightarrow> - int (length xs) \<le> i \<and> i < int (length xs)"
  by (auto simp: py_index_def Let_def)

lemma py_index_cases:
  "py_index xs i = Inl IndexError \<or> (\<exists>v. py_index xs i = Inr v)"
  by (auto simp: py_index_def Let_def)

lemma comprehension_Inr_iff_all:
  "(\<exists>vs. comprehension (map f xs) = Inr vs) \<longleftrightarrow> (\<forall>x \<in> set xs. \<exists>v. f x = Inr v)"
proof
  assume "\<exists>vs. comprehension (map f xs) = Inr vs"
  then obtain vs where m: "map f xs = map Inr vs"
    using comprehension_Inr_D by blast
  show "\<forall>x \<in> set xs. \<exists>v. f x = Inr v"
  proof
    fix x assume "x \<in> set xs"
    then have "f x \<in> set (map f xs)" by simp
    then have "f x \<in> set (map Inr vs)" by (simp only: m)
    then show "\<exists>v. f x = Inr v" by auto
  qed
next
  assume a: "\<forall>x \<in> set xs. \<exists>v. f x = Inr v"
  then show "\<exists>vs. comprehension (map f xs) = Inr vs"
  proof (induction xs)
    case Nil
    then show ?case by simp
  next
    case (Cons x xs)
    then obtain v vs where "f x = Inr v" "comprehension (map f xs) = Inr vs" by auto
    then show ?case by simp
  qed
qed

lemma zip_take_mem:
  assumes "l \<in> set (take (length ys) xs)"
  shows "\<exists>s. (l, s) \<in> set (zip xs ys)"
proof -
  from assms obtain i where "i < length (take (length ys) xs)" "take (length ys) xs ! i = l"
    by (auto simp: in_set_conv_nth)
  then have "i < length xs" "i < length ys" "xs ! i = l" by auto
  then have "(l, ys ! i) \<in> set (zip xs ys)" by (auto simp: set_zip)
  then show ?thesis ..
qed

lemma guarded_lookup_Inr_iff:
  "(\<exists>v. (if 0 \<le> l then py_index palette l else Inr c) = Inr v) \<longleftrightarrow> l < int (length palette)"
proof (cases "0 \<le> l")
  case True
  then show ?thesis by (auto simp: py_index_nonneg)
next
  case False
  then show ?thesis by simp
qed

lemma guarded_lookup_cases:
  "(if 0 \<le> l then py_index palette l else Inr c) = Inl e \<Longrightarrow> e = IndexError"
  using py_index_cases [of palette l] by (cases "0 \<le> l") auto

lemma test_colors_cases:
  "test_colors palette ls = Inl IndexError \<or> (\<exists>cs. test_colors palette ls = Inr cs)"
proof (cases "test_colors palette ls")
  case (Inl e)
  then have "Inl e \<in> set (map (\<lambda>col. if 0 \<le> col then py_index palette col else Inr (0.1, 0.1, 0.1)) ls)"
    unfolding test_colors_def by (rule comprehension_Inl)
  then obtain l where "(if 0 \<le> l then py_index palette l else Inr (0.1, 0.1, 0.1)) = Inl e"
    by (auto simp del: split_paired_Ex) metis
  then have "e = IndexError" by (rule guarded_lookup_cases)
  with Inl show ?thesis by simp
next
  case (Inr cs)
  then show ?thesis by simp
qed

text \<open>
  C9. In the prediction section the palette has 12 entries (seaborn returns as many
  colours as it is asked for, which is the hypothesis) and is subscripted by the labels
  of the trained model and of \<^verbatim>\<open>approximate_predict\<close>. The colours of the test points
  are defined exactly when every predicted label is below 12, and a label of 12 or more
  makes the lookup raise \<^verbatim>\<open>IndexError\<close>; the colours of the training points are
  defined only if every label of the model that is paired with a probability is below
  12 (and not below \<open>-12\<close>, since there the noise label is subscripted too).
\<close>

theorem prediction_palette_lookup_needs_labels_below_12:
  assumes len: "length (sns_color_palette lib ''deep'' 12) = 12"
  shows "((\<exists>tcs. test_colors (sns_color_palette lib ''deep'' 12) test_labels = Inr tcs)
            \<longleftrightarrow> (\<forall>l \<in> set test_labels. l < 12))
    \<and> ((\<exists>l \<in> set test_labels. 12 \<le> l)
            \<longrightarrow> test_colors (sns_color_palette lib ''deep'' 12) test_labels = Inl IndexError)
    \<and> ((\<exists>cs. desaturated_colors lib (sns_color_palette lib ''deep'' 12) labels probabilities = Inr cs)
            \<longrightarrow> (\<forall>l \<in> set (take (length probabilities) labels). - 12 \<le> l \<and> l < 12))"
proof -
  let ?p = "sns_color_palette lib ''deep'' 12"
  have t: "(\<exists>tcs. test_colors ?p test_labels = Inr tcs) \<longleftrightarrow> (\<forall>l \<in> set test_labels. l < 12)"
    unfolding test_colors_def comprehension_Inr_iff_all guarded_lookup_Inr_iff
    using len by simp
  have u: "(\<exists>l \<in> set test_labels. 12 \<le> l) \<longrightarrow> test_colors ?p test_labels = Inl IndexError"
  proof (rule impI)
    assume "\<exists>l \<in> set test_labels. 12 \<le> l"
    then have "\<not> (\<forall>l \<in> set test_labels. l < 12)" by fastforce
    with t have "\<not> (\<exists>tcs. test_colors ?p test_labels = Inr tcs)" by simp
    with test_colors_cases [of ?p test_labels]
    show "test_colors ?p test_labels = Inl IndexError" by simp
  qed
  have d: "(\<exists>cs. desaturated_colors lib ?p labels probabilities = Inr cs)
      \<longrightarrow> (\<forall>l \<in> set (take (length probabilities) labels). - 12 \<le> l \<and> l < 12)"
  proof (intro impI ballI)
    assume that: "\<exists>cs. desaturated_colors lib ?p labels probabilities = Inr cs"
    fix l assume "l \<in> set (take (length probabilities) labels)"
    then obtain s where s: "(l, s) \<in> set (zip labels probabilities)"
      using zip_take_mem by fastforce
    from that have "\<forall>x \<in> set (zip labels probabilities). \<exists>v.
        (case x of (col, sat) \<Rightarrow>
           case py_index ?p col of Inl e \<Rightarrow> Inl e | Inr c \<Rightarrow> sns_desaturate lib c sat) = Inr v"
      unfolding desaturated_colors_def comprehension_Inr_iff_all .
    from bspec [OF this s] obtain v where
      "(case py_index ?p l of Inl e \<Rightarrow> Inl e | Inr c \<Rightarrow> sns_desaturate lib c s) = Inr v"
      by auto
    then have "\<exists>c. py_index ?p l = Inr c" by (auto split: sum.splits)
    then show "- 12 \<le> l \<and> l < 12" using py_index_Inr_iff [of ?p l] len by simp
  qed
  show ?thesis by (rule conjI [OF t conjI [OF u d]])
qed

theorem prediction_palette_lookup_needs_labels_below_12_witness:
  "test_colors (sns_color_palette demo_library ''deep'' 12) [0, - 1, 11] =
     Inr [(0, 0, 1), (0.1, 0.1, 0.1), (11 / 16, 0, 1)]
   \<and> test_colors (sns_color_palette demo_library ''deep'' 12) [0, 12, 1] = Inl IndexError
   \<and> desaturated_colors demo_library (sns_color_palette demo_library ''deep'' 12) [1, - 1] [1, 0] =
       Inr [(1 / 16, 0, 1), (11 / 16, 0, 1)]
   \<and> desaturated_colors demo_library (sns_color_palette demo_library ''deep'' 12) [1, 12] [1, 0] =
       Inl IndexError"
proof -
  have len: "length (sns_color_palette demo_library ''deep'' 12) = 12"
    by (simp add: demo_library_def)
  have p: "sns_color_palette demo_library ''deep'' 12 =
      [(0, 0, 1), (1 / 16, 0, 1), (1 / 8, 0, 1), (3 / 16, 0, 1), (1 / 4, 0, 1), (5 / 16, 0, 1),
       (3 / 8, 0, 1), (7 / 16, 0, 1), (1 / 2, 0, 1), (9 / 16, 0, 1), (5 / 8, 0, 1), (11 / 16, 0, 1)]"
    by (simp add: demo_library_def upt_conv_Cons)
  have d: "sns_desaturate demo_library c 1 = Inr c" "sns_desaturate demo_library c 0 = Inr c" for c
    by (simp_all add: demo_library_def)
  have e1: "test_colors (sns_color_palette demo_library ''deep'' 12) [0, - 1, 11] =
      Inr [(0, 0, 1), (0.1, 0.1, 0.1), (11 / 16, 0, 1)]"
    by (simp add: p test_colors_def py_index_def)
  have e2: "test_colors (sns_color_palette demo_library ''deep'' 12) [0, 12, 1] = Inl IndexError"
    using prediction_palette_lookup_needs_labels_below_12 [OF len, of "[0, 12, 1]"] by simp
  have e3: "desaturated_colors demo_library (sns_color_palette demo_library ''deep'' 12)
      [1, - 1] [1, 0] = Inr [(1 / 16, 0, 1), (11 / 16, 0, 1)]"
    by (simp add: p d desaturated_colors_def py_index_def)
  have e4: "desaturated_colors demo_library (sns_color_palette demo_library ''deep'' 12)
      [1, 12] [1, 0] = Inl IndexError"
    by (simp add: p d desaturated_colors_def py_index_def)
  from e1 e2 e3 e4 show ?thesis by blast
qed

subsection \<open>The test points\<close>

text \<open>
  C10. The test points are 50 points of 2 coordinates each, and every coordinate lies
  in the half-open interval from \<open>-0.5\<close> to \<open>0.5\<close>, given that each float drawn lies in
  the half-open interval from 0 to 1 (the contract of \<^verbatim>\<open>np.random.random\<close>, which is
  the hypothesis). Floating-point subtraction is monotone, and it is exact for the
  smallest and the largest float of that interval, so the bounds hold for the floats as
  they do for the reals.
\<close>

theorem test_points_shape_and_range:
  assumes draws: "\<forall>n < 100. 0 \<le> random_sample lib n \<and> random_sample lib n < 1"
  shows "length (rows (test_points lib)) = 50
    \<and> ncols (test_points lib) = 2
    \<and> (\<forall>p \<in> set (rows (test_points lib)).
          length p = 2 \<and> (\<forall>c \<in> set p. - 0.5 \<le> c \<and> c < 0.5))"
proof -
  have r: "rows (test_points lib) =
      map (\<lambda>i. [random_sample lib (i * 2) - 0.5, random_sample lib (i * 2 + 1) - 0.5]) [0..<50]"
  proof -
    have "[0..<2] = [0, Suc 0]" by (simp add: upt_conv_Cons)
    then show ?thesis
      by (simp add: test_points_def ndarray_sub_def np_random_random_def del: upt.simps)
  qed
  have c: "- 0.5 \<le> random_sample lib n - 0.5 \<and> random_sample lib n - 0.5 < 0.5" if "n < 100" for n
  proof -
    from draws that have "0 \<le> random_sample lib n \<and> random_sample lib n < 1" by blast
    then show ?thesis by simp
  qed
  have pts: "length p = 2 \<and> (\<forall>c \<in> set p. - 0.5 \<le> c \<and> c < 0.5)" if "p \<in> set (rows (test_points lib))" for p
  proof -
    from that have "p \<in> (\<lambda>i. [random_sample lib (i * 2) - 0.5, random_sample lib (i * 2 + 1) - 0.5])
        ` set [0..<50]"
      by (simp only: r set_map)
    then obtain i where "i \<in> set [0..<50]"
      and p: "p = [random_sample lib (i * 2) - 0.5, random_sample lib (i * 2 + 1) - 0.5]"
      by blast
    then have i: "i < 50" by (simp only: set_upt atLeastLessThan_iff)
    from i have "i * 2 < 100" "i * 2 + 1 < 100" by simp_all
    with c p show ?thesis by simp
  qed
  have len: "length (rows (test_points lib)) = 50"
    by (simp only: r length_map length_upt)
  have nc: "ncols (test_points lib) = 2"
    by (simp add: test_points_def ndarray_sub_def np_random_random_def)
  have "\<forall>p \<in> set (rows (test_points lib)).
      length p = 2 \<and> (\<forall>c \<in> set p. - 0.5 \<le> c \<and> c < 0.5)"
  proof (rule ballI)
    fix p assume "p \<in> set (rows (test_points lib))"
    then show "length p = 2 \<and> (\<forall>c \<in> set p. - 0.5 \<le> c \<and> c < 0.5)" by (rule pts)
  qed
  then show ?thesis by (rule conjI [OF len conjI [OF nc]])
qed

theorem test_points_shape_and_range_witness:
  "length (rows (test_points demo_library)) = 50
   \<and> ncols (test_points demo_library) = 2
   \<and> hd (rows (test_points demo_library)) = [- 1 / 2, - 1 / 4]"
proof -
  have draws: "\<forall>n < 100. 0 \<le> random_sample demo_library n \<and> random_sample demo_library n < 1"
  proof (intro allI impI)
    fix n :: nat
    have "n mod 4 < 4" by simp
    then have "real (n mod 4) < 4" by (metis of_nat_less_iff of_nat_numeral)
    then show "0 \<le> random_sample demo_library n \<and> random_sample demo_library n < 1"
      by (simp add: demo_library_def)
  qed
  have h: "hd (rows (test_points demo_library)) = [- 1 / 2, - 1 / 4]"
  proof -
    have "[0..<50] = 0 # [1..<50]" "[0..<2] = [0, Suc 0]" by (simp_all add: upt_conv_Cons)
    then show ?thesis
      by (simp add: test_points_def ndarray_sub_def np_random_random_def demo_library_def
          del: upt.simps)
  qed
  note t = test_points_shape_and_range [OF draws]
  from t have a: "length (rows (test_points demo_library)) = 50" by (rule conjunct1)
  from t have b: "ncols (test_points demo_library) = 2" by (rule conjunct1 [OF conjunct2])
  from a b h show ?thesis by (intro conjI)
qed

subsection \<open>Sequencing\<close>

lemma seq_Inr: "m w = (Inr a, w') \<Longrightarrow> seq m f w = f a w'"
  by (simp add: seq_def)

lemma seq_Inl: "m w = (Inl e, w') \<Longrightarrow> seq m f w = (Inl e, w')"
  by (simp add: seq_def)

lemma seq_Inr_D:
  assumes "seq m f w = (Inr b, w')"
  obtains a w1 where "m w = (Inr a, w1)" "f a w1 = (Inr b, w')"
  using assms by (auto simp: seq_def split: prod.splits sum.splits)

lemma seq_cases:
  obtains e where "fst (m w) = Inl e" "seq m f w = (Inl e, snd (m w))"
  | a where "fst (m w) = Inr a" "seq m f w = f a (snd (m w))"
  by (cases "m w"; cases "fst (m w)") (auto simp: seq_def)



lemma lift_Inr [simp]: "lift (Inr a) w = (Inr a, w)"
  by (simp add: lift_def)

lemma lift_Inl [simp]: "lift (Inl e) w = (Inl e, w\<lparr>log := log w @ [Raised e]\<rparr>)"
  by (simp add: lift_def py_raise_def)

lemma lift_Inr_D: "lift r w = (Inr a, w') \<Longrightarrow> r = Inr a \<and> w' = w"
  by (cases r) simp_all

lemma call_Inr [simp]: "call c (Inr a) w = (Inr a, w\<lparr>log := log w @ [c]\<rparr>)"
  by (simp add: call_def)

lemma call_Inl [simp]:
  "call c (Inl e) w = (Inl e, w\<lparr>log := log w @ [c, Raised e]\<rparr>)"
  by (simp add: call_def)

lemma call_Inr_D: "call c r w = (Inr a, w') \<Longrightarrow> r = Inr a \<and> w' = w\<lparr>log := log w @ [c]\<rparr>"
  by (cases r) simp_all

lemma emit_D: "emit e w = (r, w') \<Longrightarrow> r = Inr () \<and> w' = w\<lparr>log := log w @ [e]\<rparr>"
  by (auto simp: emit_def)

lemma for_each_Cons_Inr_D:
  assumes "for_each body (x # xs) w = (Inr u, w')"
  obtains w1 where "body x w = (Inr (), w1)" "for_each body xs w1 = (Inr u, w')"
  using assms by (auto split: prod.splits sum.splits)

lemma for_each_Cons_Inl_D:
  assumes "for_each body (x # xs) w = (Inl e, w')"
  obtains "body x w = (Inl e, w')"
  | w1 where "body x w = (Inr (), w1)" "for_each body xs w1 = (Inl e, w')"
  using assms by (auto split: prod.splits sum.splits)

lemma for_each_cases:
  obtains e where "fst (body x w) = Inl e" "for_each body (x # xs) w = (Inl e, snd (body x w))"
  | "fst (body x w) = Inr ()" "for_each body (x # xs) w = for_each body xs (snd (body x w))"
  by (cases "body x w"; cases "fst (body x w)") auto

lemma enumerate_Cons: "enumerate i (x # xs) = (i, x) # enumerate (Suc i) xs"
  by simp

subsection \<open>The files on disk\<close>












































subsection \<open>What a run returns\<close>

lemma and_then_Inr [simp]: "and_then (Inr a) f = f a"
  by (simp add: and_then_def)

lemma and_then_Inl [simp]: "and_then (Inl e) f = Inl e"
  by (simp add: and_then_def)

lemma and_then_return [simp]: "and_then r Inr = r"
  by (cases r) simp_all

lemma and_then_assoc: "and_then (and_then r f) g = and_then r (\<lambda>a. and_then (f a) g)"
  by (cases r) simp_all

lemma and_then_Inr_D:
  assumes "and_then r f = Inr b"
  obtains a where "r = Inr a" "f a = Inr b"
  using assms by (cases r) simp_all

lemma fst_seq: "fst (seq m f w) = and_then (fst (m w)) (\<lambda>a. fst (f a (snd (m w))))"
  by (cases "m w"; cases "fst (m w)") (simp_all add: seq_def)

lemma fst_lift: "fst (lift r w) = r"
  by (cases r) simp_all

lemma fst_call: "fst (call c r w) = r"
  by (cases r) simp_all

lemma fst_emit: "fst (emit e w) = Inr ()"
  by (simp add: emit_def)

lemma fst_py_time: "fst (py_time lib w) = Inr (time_time lib (ticks w))"
  by (simp add: py_time_def)

lemma fst_py_raise: "fst (py_raise e w) = Inl e"
  by (simp add: py_raise_def)

lemmas fst_steps = fst_seq fst_lift fst_call fst_emit fst_py_time fst_py_raise

lemma fst_for_each:
  assumes "\<And>x w. fst (body x w) = g x"
  shows "fst (for_each body xs w) = first_failure g xs"
proof (induction xs arbitrary: w)
  case Nil
  show ?case by simp
next
  case (Cons x xs)
  show ?case
  proof (cases "g x")
    case (Inl e)
    with assms [of x w] have "fst (body x w) = Inl e" by simp
    then have "for_each body (x # xs) w = (Inl e, snd (body x w))"
      by (cases "body x w") simp
    with Inl show ?thesis by simp
  next
    case (Inr u)
    with assms [of x w] have "fst (body x w) = Inr u" by simp
    then have "for_each body (x # xs) w = for_each body xs (snd (body x w))"
      by (cases "body x w") simp
    with Inr Cons show ?thesis by simp
  qed
qed

lemma first_failure_map: "first_failure (\<lambda>x. g (f x)) xs = first_failure g (map f xs)"
  by (induction xs) simp_all

lemma snd_enumerate: "map snd (enumerate i xs) = xs"
  by (induction xs arbitrary: i) simp_all

lemma fst_scatter_T01: "fst (scatter_T01 lib a c kw w) = scatter_T01_outcome lib a c kw"
  by (simp add: scatter_T01_def scatter_T01_outcome_def fst_steps)

lemma fst_scatter_star: "fst (scatter_star lib a c kw w) = scatter_star_outcome lib a c kw"
  by (simp add: scatter_star_def scatter_star_outcome_def fst_steps split: list.splits)

lemma fst_construct_fit_predict:
  "fst (construct_fit_predict lib algo args kw data w) = fitted_labels lib algo args kw data"
  by (simp add: construct_fit_predict_def fitted_labels_def fst_steps)

lemma fst_construct_fit:
  "fst (construct_fit lib algo args kw data w) = fitted lib algo args kw data"
  by (simp add: construct_fit_def fitted_def fst_steps)

lemmas fst_cells =
  fst_steps fst_scatter_T01 fst_scatter_star fst_construct_fit_predict fst_construct_fit


lemma fst_fit_and_plot:
  "fst (fit_and_plot lib data x w) = fit_and_plot_outcome lib data (snd x)"
proof -
  obtain i algo args kw where x: "x = (i, algo, args, kw)" by (cases x)
  have "fst (fit_and_plot lib data (i, algo, args, kw) w) =
      fit_and_plot_outcome lib data (algo, args, kw)"
    unfolding fit_and_plot_def fit_and_plot_outcome_def
    by (simp add: fst_cells and_then_assoc cong: sum.case_cong)
  with x show ?thesis by simp
qed

lemma fst_comparison_loop:
  "fst (for_each (fit_and_plot lib data) (enumerate i cs) w) =
     first_failure (fit_and_plot_outcome lib data) cs"
proof -
  have "fst (for_each (fit_and_plot lib data) (enumerate i cs) w) =
      first_failure (\<lambda>x. fit_and_plot_outcome lib data (snd x)) (enumerate i cs)"
    by (rule fst_for_each) (rule fst_fit_and_plot)
  also have "\<dots> = first_failure (fit_and_plot_outcome lib data) (map snd (enumerate i cs))"
    by (rule first_failure_map)
  finally show ?thesis by (simp only: snd_enumerate)
qed

lemma fst_compare_algos:
  "fst (compare_algos lib data w) = first_failure (fit_and_plot_outcome lib data) algo_combos"
  by (simp add: compare_algos_def fst_cells fst_comparison_loop)














subsection \<open>Runs that end at the first exception\<close>


lemma raised_Nil [simp]: "raised [] = None"
  by (simp add: raised_def)








































lemma error_of_simps [simp]: "error_of (Inl e) = Some e" "error_of (Inr a) = None"
  by (simp_all add: error_of_def)





subsection \<open>The comparison loop\<close>

lemma getitem_T_0: "getitem (ndarray_T a) 0 = Inr x \<Longrightarrow> x = column a 0"
  by (auto simp: getitem_def ndarray_T_def py_index_def split: if_splits)

lemma getitem_T_1: "getitem (ndarray_T a) 1 = Inr y \<Longrightarrow> y = column a 1"
  by (auto simp: getitem_def ndarray_T_def py_index_def split: if_splits)

lemma scatter_T01_Inr_D:
  assumes "scatter_T01 lib a c kw w = (Inr u, w')"
  shows "getitem (ndarray_T a) 0 = Inr (column a 0)"
    and "getitem (ndarray_T a) 1 = Inr (column a 1)"
    and "plt_scatter lib (column a 0) (column a 1) c kw = Inr ()"
    and "w' = w\<lparr>log := log w @ [Scatter (column a 0) (column a 1) c kw]\<rparr>"
proof -
  from assms obtain x w1 where x: "lift (getitem (ndarray_T a) 0) w = (Inr x, w1)"
    and r1: "seq (lift (getitem (ndarray_T a) 1))
               (\<lambda>y. call (Scatter x y c kw) (plt_scatter lib x y c kw)) w1 = (Inr u, w')"
    unfolding scatter_T01_def by (rule seq_Inr_D)
  from r1 obtain y w2 where y: "lift (getitem (ndarray_T a) 1) w1 = (Inr y, w2)"
    and r2: "call (Scatter x y c kw) (plt_scatter lib x y c kw) w2 = (Inr u, w')"
    by (rule seq_Inr_D)
  from lift_Inr_D [OF x] have gx: "getitem (ndarray_T a) 0 = Inr x" and w1: "w1 = w" by simp_all
  from lift_Inr_D [OF y] have gy: "getitem (ndarray_T a) 1 = Inr y" and w2: "w2 = w1" by simp_all
  from gx have xc: "x = column a 0" by (rule getitem_T_0)
  from gy have yc: "y = column a 1" by (rule getitem_T_1)
  from call_Inr_D [OF r2] have p: "plt_scatter lib x y c kw = Inr u"
    and w': "w' = w2\<lparr>log := log w2 @ [Scatter x y c kw]\<rparr>" by simp_all
  from gx xc show "getitem (ndarray_T a) 0 = Inr (column a 0)" by simp
  from gy yc show "getitem (ndarray_T a) 1 = Inr (column a 1)" by simp
  from p xc yc show "plt_scatter lib (column a 0) (column a 1) c kw = Inr ()" by simp
  from w' w1 w2 xc yc show "w' = w\<lparr>log := log w @ [Scatter (column a 0) (column a 1) c kw]\<rparr>"
    by simp
qed

lemma construct_fit_predict_Inr_D:
  assumes "construct_fit_predict lib algo args kw data w = (Inr labels, w')"
  shows "construct lib algo args kw = Inr ()"
    and "fit_predict lib algo args kw data = Inr labels"
    and "w' = w\<lparr>log := log w @ [Construct algo args kw, FitPredictCall algo args kw data]\<rparr>"
proof -
  from assms obtain u w1 where
    c: "call (Construct algo args kw) (construct lib algo args kw) w = (Inr u, w1)"
    and f: "call (FitPredictCall algo args kw data) (fit_predict lib algo args kw data) w1
              = (Inr labels, w')"
    unfolding construct_fit_predict_def by (rule seq_Inr_D)
  from call_Inr_D [OF c] show "construct lib algo args kw = Inr ()" by simp
  from call_Inr_D [OF f] show "fit_predict lib algo args kw data = Inr labels" by simp
  from call_Inr_D [OF c] call_Inr_D [OF f]
  show "w' = w\<lparr>log := log w @ [Construct algo args kw, FitPredictCall algo args kw data]\<rparr>"
    by simp
qed

lemma construct_fit_Inr_D:
  assumes "construct_fit lib algo args kw data w = (Inr clusterer, w')"
  shows "construct lib algo args kw = Inr ()"
    and "fit lib algo args kw data = Inr clusterer"
    and "w' = w\<lparr>log := log w @ [Construct algo args kw, FitCall algo args kw data]\<rparr>"
proof -
  from assms obtain u w1 where
    c: "call (Construct algo args kw) (construct lib algo args kw) w = (Inr u, w1)"
    and f: "call (FitCall algo args kw data) (fit lib algo args kw data) w1
              = (Inr clusterer, w')"
    unfolding construct_fit_def by (rule seq_Inr_D)
  from call_Inr_D [OF c] show "construct lib algo args kw = Inr ()" by simp
  from call_Inr_D [OF f] show "fit lib algo args kw data = Inr clusterer" by simp
  from call_Inr_D [OF c] call_Inr_D [OF f]
  show "w' = w\<lparr>log := log w @ [Construct algo args kw, FitCall algo args kw data]\<rparr>"
    by simp
qed

lemma py_time_eq:
  "py_time lib w =
     (Inr (time_time lib (ticks w)),
      w\<lparr>ticks := Suc (ticks w), log := log w @ [Clock (time_time lib (ticks w))]\<rparr>)"
  by (simp add: py_time_def)

lemma emit_eq: "emit e w = (Inr (), w\<lparr>log := log w @ [e]\<rparr>)"
  by (simp add: emit_def)

lemma fit_and_plot_Inr_D:
  assumes "fit_and_plot lib data (i, algo, args, kw) w = (Inr u, w')"
  obtains labels cs where
    "construct lib algo args kw = Inr ()"
    "fit_predict lib algo args kw data = Inr labels"
    "labels \<noteq> []"
    "colors (sns_color_palette lib ''deep'' (Max (set labels) + 1)) labels = Inr cs"
    "getitem (ndarray_T data) 0 = Inr (column data 0)"
    "getitem (ndarray_T data) 1 = Inr (column data 1)"
    "plt_scatter lib (column data 0) (column data 1) (Colours cs) plot_kwds = Inr ()"
    "w' = w\<lparr>ticks := Suc (Suc (ticks w)),
            log := log w @ iteration_log lib data (ticks w) i (algo, args, kw)
                             (column data 0) (column data 1) cs\<rparr>"
proof -
  let ?w1 = "w\<lparr>ticks := Suc (ticks w), log := log w @ [Clock (time_time lib (ticks w))]\<rparr>"
  from assms have "seq (construct_fit_predict lib algo args kw data) (\<lambda>labels.
     seq (py_time lib) (\<lambda>end_time.
     seq (lift (np_max (np_unique labels))) (\<lambda>m.
     seq (lift (colors (sns_color_palette lib ''deep'' (m + 1)) labels)) (\<lambda>cs.
     seq (emit (AddSubplot 4 2 i)) (\<lambda>_.
     seq (scatter_T01 lib data (Colours cs) plot_kwds) (\<lambda>_.
     seq (emit (AxisVisible ''x'' False)) (\<lambda>_.
     seq (emit (AxisVisible ''y'' False)) (\<lambda>_.
     emit (Text (- 0.5) 0.67
             (algo_name algo @ '': '' @ format_2f (end_time - time_time lib (ticks w)) @ '' s'')
             [(''fontsize'', PInt 20)]))))))))) ?w1 = (Inr u, w')"
    by (simp add: fit_and_plot_def seq_Inr [OF py_time_eq])
  then obtain labels w2 where
    cf: "construct_fit_predict lib algo args kw data ?w1 = (Inr labels, w2)"
    and r2: "seq (py_time lib) (\<lambda>end_time.
     seq (lift (np_max (np_unique labels))) (\<lambda>m.
     seq (lift (colors (sns_color_palette lib ''deep'' (m + 1)) labels)) (\<lambda>cs.
     seq (emit (AddSubplot 4 2 i)) (\<lambda>_.
     seq (scatter_T01 lib data (Colours cs) plot_kwds) (\<lambda>_.
     seq (emit (AxisVisible ''x'' False)) (\<lambda>_.
     seq (emit (AxisVisible ''y'' False)) (\<lambda>_.
     emit (Text (- 0.5) 0.67
             (algo_name algo @ '': '' @ format_2f (end_time - time_time lib (ticks w)) @ '' s'')
             [(''fontsize'', PInt 20)])))))))) w2 = (Inr u, w')"
    by (rule seq_Inr_D)
  note c = construct_fit_predict_Inr_D [OF cf]
  let ?w3 = "w2\<lparr>ticks := Suc (ticks w2), log := log w2 @ [Clock (time_time lib (ticks w2))]\<rparr>"
  from r2 have "seq (lift (np_max (np_unique labels))) (\<lambda>m.
     seq (lift (colors (sns_color_palette lib ''deep'' (m + 1)) labels)) (\<lambda>cs.
     seq (emit (AddSubplot 4 2 i)) (\<lambda>_.
     seq (scatter_T01 lib data (Colours cs) plot_kwds) (\<lambda>_.
     seq (emit (AxisVisible ''x'' False)) (\<lambda>_.
     seq (emit (AxisVisible ''y'' False)) (\<lambda>_.
     emit (Text (- 0.5) 0.67
             (algo_name algo @ '': '' @
                format_2f (time_time lib (ticks w2) - time_time lib (ticks w)) @ '' s'')
             [(''fontsize'', PInt 20)]))))))) ?w3 = (Inr u, w')"
    by (simp add: seq_Inr [OF py_time_eq])
  then obtain m w4 where
    m: "lift (np_max (np_unique labels)) ?w3 = (Inr m, w4)"
    and r4: "seq (lift (colors (sns_color_palette lib ''deep'' (m + 1)) labels)) (\<lambda>cs.
     seq (emit (AddSubplot 4 2 i)) (\<lambda>_.
     seq (scatter_T01 lib data (Colours cs) plot_kwds) (\<lambda>_.
     seq (emit (AxisVisible ''x'' False)) (\<lambda>_.
     seq (emit (AxisVisible ''y'' False)) (\<lambda>_.
     emit (Text (- 0.5) 0.67
             (algo_name algo @ '': '' @
                format_2f (time_time lib (ticks w2) - time_time lib (ticks w)) @ '' s'')
             [(''fontsize'', PInt 20)])))))) w4 = (Inr u, w')"
    by (rule seq_Inr_D)
  from lift_Inr_D [OF m] have mx: "np_max (np_unique labels) = Inr m" and w4: "w4 = ?w3"
    by simp_all
  from mx have ne: "labels \<noteq> []" and mm: "m = Max (set labels)"
    by (simp_all add: np_max_unique split: if_splits)
  from r4 obtain cs w5 where
    cs: "lift (colors (sns_color_palette lib ''deep'' (m + 1)) labels) w4 = (Inr cs, w5)"
    and r5: "seq (emit (AddSubplot 4 2 i)) (\<lambda>_.
     seq (scatter_T01 lib data (Colours cs) plot_kwds) (\<lambda>_.
     seq (emit (AxisVisible ''x'' False)) (\<lambda>_.
     seq (emit (AxisVisible ''y'' False)) (\<lambda>_.
     emit (Text (- 0.5) 0.67
             (algo_name algo @ '': '' @
                format_2f (time_time lib (ticks w2) - time_time lib (ticks w)) @ '' s'')
             [(''fontsize'', PInt 20)]))))) w5 = (Inr u, w')"
    by (rule seq_Inr_D)
  from lift_Inr_D [OF cs]
  have col: "colors (sns_color_palette lib ''deep'' (m + 1)) labels = Inr cs" and w5: "w5 = w4"
    by simp_all
  let ?w6 = "w5\<lparr>log := log w5 @ [AddSubplot 4 2 i]\<rparr>"
  from r5 have "seq (scatter_T01 lib data (Colours cs) plot_kwds) (\<lambda>_.
     seq (emit (AxisVisible ''x'' False)) (\<lambda>_.
     seq (emit (AxisVisible ''y'' False)) (\<lambda>_.
     emit (Text (- 0.5) 0.67
             (algo_name algo @ '': '' @
                format_2f (time_time lib (ticks w2) - time_time lib (ticks w)) @ '' s'')
             [(''fontsize'', PInt 20)])))) ?w6 = (Inr u, w')"
    by (simp add: seq_Inr [OF emit_eq])
  then obtain v w7 where
    sc: "scatter_T01 lib data (Colours cs) plot_kwds ?w6 = (Inr v, w7)"
    and r7: "seq (emit (AxisVisible ''x'' False)) (\<lambda>_.
     seq (emit (AxisVisible ''y'' False)) (\<lambda>_.
     emit (Text (- 0.5) 0.67
             (algo_name algo @ '': '' @
                format_2f (time_time lib (ticks w2) - time_time lib (ticks w)) @ '' s'')
             [(''fontsize'', PInt 20)]))) w7 = (Inr u, w')"
    by (rule seq_Inr_D)
  note s = scatter_T01_Inr_D [OF sc]
  from r7 have w': "w' = w7\<lparr>log := log w7 @
      [AxisVisible ''x'' False, AxisVisible ''y'' False,
       Text (- 0.5) 0.67
             (algo_name algo @ '': '' @
                format_2f (time_time lib (ticks w2) - time_time lib (ticks w)) @ '' s'')
             [(''fontsize'', PInt 20)]]\<rparr>"
    by (simp add: seq_Inr [OF emit_eq] emit_eq)
  have t2: "ticks w2 = Suc (ticks w)" using c(3) by simp
  have final: "w' = w\<lparr>ticks := Suc (Suc (ticks w)),
            log := log w @ iteration_log lib data (ticks w) i (algo, args, kw)
                             (column data 0) (column data 1) cs\<rparr>"
    unfolding w' s(4) w5 w4 c(3) iteration_log_def by simp
  show ?thesis
  proof (rule that)
    show "construct lib algo args kw = Inr ()" by (rule c(1))
    show "fit_predict lib algo args kw data = Inr labels" by (rule c(2))
    show "labels \<noteq> []" by (rule ne)
    show "colors (sns_color_palette lib ''deep'' (Max (set labels) + 1)) labels = Inr cs"
      using col mm by simp
    show "getitem (ndarray_T data) 0 = Inr (column data 0)" by (rule s(1))
    show "getitem (ndarray_T data) 1 = Inr (column data 1)" by (rule s(2))
    show "plt_scatter lib (column data 0) (column data 1) (Colours cs) plot_kwds = Inr ()"
      by (rule s(3))
    show "w' = w\<lparr>ticks := Suc (Suc (ticks w)),
            log := log w @ iteration_log lib data (ticks w) i (algo, args, kw)
                             (column data 0) (column data 1) cs\<rparr>"
      by (rule final)
  qed
qed

lemma fit_and_plot_Inl_D:
  assumes "fit_and_plot lib data (i, algo, args, kw) w = (Inl e, w')"
  obtains es where
    "log w' = log w @ Clock (time_time lib (ticks w)) # Construct algo args kw # es"
    "filter is_text es = []"
    "filter is_fit_predict es =
       (if construct lib algo args kw = Inr () then [FitPredictCall algo args kw data] else [])"
  using assms
  by (auto simp: fit_and_plot_def seq_def py_time_def construct_fit_predict_def call_def
      lift_def py_raise_def emit_def scatter_T01_def split: sum.splits)

lemma comparison_loop_shape:
  assumes "for_each (fit_and_plot lib data) (enumerate i cs) w = (r, w')"
  shows "\<exists>n lss css. n \<le> length cs \<and> length lss = n \<and> length css = n
     \<and> map (\<lambda>(algo, args, kw). construct lib algo args kw) (take n cs) = replicate n (Inr ())
     \<and> map (\<lambda>(algo, args, kw). fit_predict lib algo args kw data) (take n cs) = map Inr lss
     \<and> map (\<lambda>l. colors (sns_color_palette lib ''deep'' (Max (set l) + 1)) l) lss = map Inr css
     \<and> list_all (\<lambda>c. fit_and_plot_outcome lib data c = Inr ()) (take n cs)
     \<and> (case r of
          Inr u \<Rightarrow> n = length cs \<and>
            w' = w\<lparr>ticks := ticks w + 2 * n,
                   log := log w @ comparison_log lib data (ticks w) i (zip (take n cs) css)\<rparr>
        | Inl e \<Rightarrow> n < length cs \<and>
            fit_and_plot lib data (i + n, cs ! n)
              (w\<lparr>ticks := ticks w + 2 * n,
                 log := log w @ comparison_log lib data (ticks w) i (zip (take n cs) css)\<rparr>)
              = (Inl e, w'))"
  using assms
proof (induction cs arbitrary: i w)
  case Nil
  then have "r = Inr ()" "w' = w" by simp_all
  then have "0 \<le> length ([] :: (algo \<times> args \<times> kwargs) list) \<and> length ([] :: int list list) = 0
     \<and> length ([] :: colour list list) = 0
     \<and> map (\<lambda>(algo, args, kw). construct lib algo args kw) (take 0 []) = replicate 0 (Inr ())
     \<and> map (\<lambda>(algo, args, kw). fit_predict lib algo args kw data) (take 0 []) = map Inr []
     \<and> map (\<lambda>l. colors (sns_color_palette lib ''deep'' (Max (set l) + 1)) l) [] = map Inr []
     \<and> list_all (\<lambda>c. fit_and_plot_outcome lib data c = Inr ()) (take 0 [])
     \<and> (case r of
          Inr u \<Rightarrow> 0 = length ([] :: (algo \<times> args \<times> kwargs) list) \<and>
            w' = w\<lparr>ticks := ticks w + 2 * 0,
                   log := log w @ comparison_log lib data (ticks w) i (zip (take 0 []) [])\<rparr>
        | Inl e \<Rightarrow> 0 < length ([] :: (algo \<times> args \<times> kwargs) list) \<and>
            fit_and_plot lib data (i + 0, [] ! 0)
              (w\<lparr>ticks := ticks w + 2 * 0,
                 log := log w @ comparison_log lib data (ticks w) i (zip (take 0 []) [])\<rparr>)
              = (Inl e, w'))"
    by simp
  then show ?case by (intro exI)
next
  case (Cons c cs)
  obtain algo args kw where c: "c = (algo, args, kw)" by (cases c)
  from Cons.prems
  have run: "for_each (fit_and_plot lib data) ((i, c) # enumerate (Suc i) cs) w = (r, w')"
    by simp
  show ?case
  proof (cases rule: for_each_cases [of "fit_and_plot lib data" "(i, c)" w "enumerate (Suc i) cs"])
    case (1 e)
    from 1(2) run have r: "r = Inl e" and w': "w' = snd (fit_and_plot lib data (i, c) w)"
      by simp_all
    from 1(1) w' have b: "fit_and_plot lib data (i, c) w = (Inl e, w')"
      by (simp add: prod_eq_iff)
    from b r have "0 \<le> length (c # cs) \<and> length ([] :: int list list) = 0
     \<and> length ([] :: colour list list) = 0
     \<and> map (\<lambda>(algo, args, kw). construct lib algo args kw) (take 0 (c # cs)) = replicate 0 (Inr ())
     \<and> map (\<lambda>(algo, args, kw). fit_predict lib algo args kw data) (take 0 (c # cs)) = map Inr []
     \<and> map (\<lambda>l. colors (sns_color_palette lib ''deep'' (Max (set l) + 1)) l) [] = map Inr []
     \<and> list_all (\<lambda>c. fit_and_plot_outcome lib data c = Inr ()) (take 0 (c # cs))
     \<and> (case r of
          Inr u \<Rightarrow> 0 = length (c # cs) \<and>
            w' = w\<lparr>ticks := ticks w + 2 * 0,
                   log := log w @ comparison_log lib data (ticks w) i (zip (take 0 (c # cs)) [])\<rparr>
        | Inl e \<Rightarrow> 0 < length (c # cs) \<and>
            fit_and_plot lib data (i + 0, (c # cs) ! 0)
              (w\<lparr>ticks := ticks w + 2 * 0,
                 log := log w @ comparison_log lib data (ticks w) i (zip (take 0 (c # cs)) [])\<rparr>)
              = (Inl e, w'))"
      by simp
    then show ?thesis by (intro exI)
  next
    case 2
    note body_ok = 2(1)
    let ?w1 = "snd (fit_and_plot lib data (i, c) w)"
    from 2(1) have b: "fit_and_plot lib data (i, algo, args, kw) w = (Inr (), ?w1)"
      unfolding c by (simp add: prod_eq_iff)
    from 2(2) run have rest: "for_each (fit_and_plot lib data) (enumerate (Suc i) cs) ?w1 = (r, w')"
      by simp
    from b obtain labels cols where
      k: "construct lib algo args kw = Inr ()"
      and f: "fit_predict lib algo args kw data = Inr labels"
      and cols: "colors (sns_color_palette lib ''deep'' (Max (set labels) + 1)) labels = Inr cols"
      and w1: "?w1 = w\<lparr>ticks := Suc (Suc (ticks w)),
            log := log w @ iteration_log lib data (ticks w) i (algo, args, kw)
                             (column data 0) (column data 1) cols\<rparr>"
      by (rule fit_and_plot_Inr_D)
    from Cons.IH [OF rest] obtain n lss css where
      n: "n \<le> length cs" and llss: "length lss = n" and lcss: "length css = n"
      and ks: "map (\<lambda>(algo, args, kw). construct lib algo args kw) (take n cs) = replicate n (Inr ())"
      and fs: "map (\<lambda>(algo, args, kw). fit_predict lib algo args kw data) (take n cs) = map Inr lss"
      and cl: "map (\<lambda>l. colors (sns_color_palette lib ''deep'' (Max (set l) + 1)) l) lss = map Inr css"
      and ok: "list_all (\<lambda>c. fit_and_plot_outcome lib data c = Inr ()) (take n cs)"
      and fin: "case r of
          Inr u \<Rightarrow> n = length cs \<and>
            w' = ?w1\<lparr>ticks := ticks ?w1 + 2 * n,
                   log := log ?w1 @ comparison_log lib data (ticks ?w1) (Suc i) (zip (take n cs) css)\<rparr>
        | Inl e \<Rightarrow> n < length cs \<and>
            fit_and_plot lib data (Suc i + n, cs ! n)
              (?w1\<lparr>ticks := ticks ?w1 + 2 * n,
                 log := log ?w1 @ comparison_log lib data (ticks ?w1) (Suc i) (zip (take n cs) css)\<rparr>)
              = (Inl e, w')"
      by (elim exE conjE)
    have t1: "ticks ?w1 = Suc (Suc (ticks w))" and l1: "log ?w1 = log w @ iteration_log lib data (ticks w) i (algo, args, kw)
                             (column data 0) (column data 1) cols"
      using w1 by simp_all
    have upd: "?w1\<lparr>ticks := ticks ?w1 + 2 * n,
                 log := log ?w1 @ comparison_log lib data (ticks ?w1) (Suc i) (zip (take n cs) css)\<rparr>
        = w\<lparr>ticks := ticks w + 2 * Suc n,
            log := log w @ comparison_log lib data (ticks w) i
                     (zip (take (Suc n) (c # cs)) (cols # css))\<rparr>"
      using w1 unfolding c by simp
    have 1: "Suc n \<le> length (c # cs)" using n by simp
    have 2: "length (labels # lss) = Suc n" using llss by simp
    have 3: "length (cols # css) = Suc n" using lcss by simp
    have 4: "map (\<lambda>(algo, args, kw). construct lib algo args kw) (take (Suc n) (c # cs))
        = replicate (Suc n) (Inr ())"
      using ks k c by simp
    have 5: "map (\<lambda>(algo, args, kw). fit_predict lib algo args kw data) (take (Suc n) (c # cs))
        = map Inr (labels # lss)"
      using fs f c by simp
    have 6: "map (\<lambda>l. colors (sns_color_palette lib ''deep'' (Max (set l) + 1)) l) (labels # lss)
        = map Inr (cols # css)"
      using cl cols by simp
    have 7: "case r of
          Inr u \<Rightarrow> Suc n = length (c # cs) \<and>
            w' = w\<lparr>ticks := ticks w + 2 * Suc n,
                   log := log w @ comparison_log lib data (ticks w) i
                            (zip (take (Suc n) (c # cs)) (cols # css))\<rparr>
        | Inl e \<Rightarrow> Suc n < length (c # cs) \<and>
            fit_and_plot lib data (i + Suc n, (c # cs) ! Suc n)
              (w\<lparr>ticks := ticks w + 2 * Suc n,
                 log := log w @ comparison_log lib data (ticks w) i
                          (zip (take (Suc n) (c # cs)) (cols # css))\<rparr>)
              = (Inl e, w')"
      using fin unfolding upd by (cases r) simp_all
    from body_ok have "fit_and_plot_outcome lib data c = Inr ()"
      by (simp add: fst_fit_and_plot)
    with ok have 8: "list_all (\<lambda>c. fit_and_plot_outcome lib data c = Inr ()) (take (Suc n) (c # cs))"
      by simp
    from 1 2 3 4 5 6 8 7 show ?thesis by (intro exI conjI)
  qed
qed

lemma compare_algos_cases:
  obtains (returns) w1 where
    "for_each (fit_and_plot lib data) (enumerate 1 algo_combos)
       (w\<lparr>log := log w @ [Figure 20 20]\<rparr>) = (Inr (), w1)"
    "compare_algos lib data w = (Inr (), w1\<lparr>log := log w1 @ [TightLayout]\<rparr>)"
  | (raises) e w1 where
    "for_each (fit_and_plot lib data) (enumerate 1 algo_combos)
       (w\<lparr>log := log w @ [Figure 20 20]\<rparr>) = (Inl e, w1)"
    "compare_algos lib data w = (Inl e, w1)"
proof -
  let ?loop = "for_each (fit_and_plot lib data) (enumerate 1 algo_combos)
       (w\<lparr>log := log w @ [Figure 20 20]\<rparr>)"
  have c: "compare_algos lib data w =
      seq (for_each (fit_and_plot lib data) (enumerate 1 algo_combos)) (\<lambda>_. emit TightLayout)
        (w\<lparr>log := log w @ [Figure 20 20]\<rparr>)"
    unfolding compare_algos_def by (rule seq_Inr) (rule emit_eq)
  show ?thesis
  proof (cases "fst ?loop")
    case (Inl e)
    then have l: "?loop = (Inl e, snd ?loop)" by (simp add: prod_eq_iff)
    then have "compare_algos lib data w = (Inl e, snd ?loop)"
      unfolding c by (rule seq_Inl)
    with l show ?thesis by (rule raises)
  next
    case (Inr u)
    then have l: "?loop = (Inr (), snd ?loop)" by (simp add: prod_eq_iff)
    then have "compare_algos lib data w = emit TightLayout (snd ?loop)"
      unfolding c by (rule seq_Inr)
    then have "compare_algos lib data w = (Inr (), (snd ?loop)\<lparr>log := log (snd ?loop) @ [TightLayout]\<rparr>)"
      by (simp add: emit_eq)
    with l show ?thesis by (rule returns)
  qed
qed

lemma filter_fit_iteration_log:
  "filter is_fit_predict (iteration_log lib data t i (algo, args, kw) x y cs) =
     [FitPredictCall algo args kw data]"
  by (simp add: iteration_log_def)

lemma filter_fit_comparison_log:
  "length css = length cs \<Longrightarrow>
   filter is_fit_predict (comparison_log lib data t i (zip cs css)) =
     map (\<lambda>(algo, args, kw). FitPredictCall algo args kw data) cs"
proof (induction cs arbitrary: css t i)
  case Nil
  then show ?case by simp
next
  case (Cons c cs)
  from Cons.prems obtain cols css' where css: "css = cols # css'" by (cases css) simp_all
  obtain algo args kw where c: "c = (algo, args, kw)" by (cases c)
  from Cons.prems css have "length css' = length cs" by simp
  from Cons.IH [OF this] show ?case
    unfolding css c by (simp add: filter_fit_iteration_log)
qed

lemma length_map_eq: "map f xs = map g ys \<Longrightarrow> length xs = length ys"
  by (rule map_eq_imp_length_eq)

text \<open>
  C1. The list \<^verbatim>\<open>algo_combos\<close> has one entry for each of the seven algorithms KMeans,
  AffinityPropagation, MeanShift, SpectralClustering, AgglomerativeClustering, DBSCAN and
  HDBSCAN, in that order, and the loop applies each of them exactly once to the data set.
  A run of the comparison that returns has constructed each estimator and has had the
  library's \<^verbatim>\<open>fit_predict\<close> return labels for each of them on the data; its log is the
  figure, then for each entry in order the events of its iteration (clock, constructor,
  \<^verbatim>\<open>fit_predict\<close> on the data, clock, subplot, the scatter plot in the colours of those
  labels, axes, text), then the layout: one call of \<^verbatim>\<open>fit_predict\<close> for each entry. A run
  that raises \<open>e\<close> has completed the iterations of the entries before some entry \<open>n\<close>,
  whose iteration raised \<open>e\<close>; it has called \<^verbatim>\<open>fit_predict\<close> once for each of the entries
  before \<open>n\<close> and for entry \<open>n\<close> if its constructor returned, and for no other.
\<close>

theorem comparison_fits_each_algorithm_once:
  assumes "compare_algos lib data w = (r, w')"
  shows "map fst algo_combos =
       [KMeans, AffinityPropagation, MeanShift, SpectralClustering, AgglomerativeClustering,
        DBSCAN, HDBSCAN]
   \<and> (r = Inr () \<longrightarrow>
        (\<exists>lss css.
           map (\<lambda>(algo, args, kw). construct lib algo args kw) algo_combos = replicate 7 (Inr ())
         \<and> map (\<lambda>(algo, args, kw). fit_predict lib algo args kw data) algo_combos = map Inr lss
         \<and> map (\<lambda>l. colors (sns_color_palette lib ''deep'' (Max (set l) + 1)) l) lss = map Inr css
         \<and> new_events w w' =
             Figure 20 20 # comparison_log lib data (ticks w) 1 (zip algo_combos css)
             @ [TightLayout]
         \<and> filter is_fit_predict (new_events w w') =
             map (\<lambda>(algo, args, kw). FitPredictCall algo args kw data) algo_combos))
   \<and> (\<forall>e. r = Inl e \<longrightarrow>
        (\<exists>n. n < length algo_combos
         \<and> list_all (\<lambda>c. fit_and_plot_outcome lib data c = Inr ()) (take n algo_combos)
         \<and> fit_and_plot_outcome lib data (algo_combos ! n) = Inl e
         \<and> filter is_fit_predict (new_events w w') =
             map (\<lambda>(algo, args, kw). FitPredictCall algo args kw data)
               (take n algo_combos @
                (if (\<lambda>(algo, args, kw). construct lib algo args kw) (algo_combos ! n) = Inr ()
                 then [algo_combos ! n] else []))))"
proof -
  let ?w0 = "w\<lparr>log := log w @ [Figure 20 20]\<rparr>"
  have names: "map fst algo_combos =
       [KMeans, AffinityPropagation, MeanShift, SpectralClustering, AgglomerativeClustering,
        DBSCAN, HDBSCAN]"
    by (simp add: algo_combos_def)
  have len: "length algo_combos = 7" by (simp add: algo_combos_def)
  have completed: "\<exists>lss css.
           map (\<lambda>(algo, args, kw). construct lib algo args kw) algo_combos = replicate 7 (Inr ())
         \<and> map (\<lambda>(algo, args, kw). fit_predict lib algo args kw data) algo_combos = map Inr lss
         \<and> map (\<lambda>l. colors (sns_color_palette lib ''deep'' (Max (set l) + 1)) l) lss = map Inr css
         \<and> new_events w w' =
             Figure 20 20 # comparison_log lib data (ticks w) 1 (zip algo_combos css)
             @ [TightLayout]
         \<and> filter is_fit_predict (new_events w w') =
             map (\<lambda>(algo, args, kw). FitPredictCall algo args kw data) algo_combos"
    if r: "r = Inr ()"
  proof (cases rule: compare_algos_cases [of lib data w])
    case (raises e w1)
    with assms r show ?thesis by simp
  next
    case (returns w1)
    with assms have w': "w' = w1\<lparr>log := log w1 @ [TightLayout]\<rparr>" by simp
    from comparison_loop_shape [OF returns(1), unfolded sum.case] obtain n lss css where
      lcss: "length css = n"
      and ks: "map (\<lambda>(algo, args, kw). construct lib algo args kw) (take n algo_combos)
                 = replicate n (Inr ())"
      and fs: "map (\<lambda>(algo, args, kw). fit_predict lib algo args kw data) (take n algo_combos)
                 = map Inr lss"
      and cl: "map (\<lambda>l. colors (sns_color_palette lib ''deep'' (Max (set l) + 1)) l) lss
                 = map Inr css"
      and n: "n = length algo_combos"
      and fin: "w1 = ?w0\<lparr>ticks := ticks ?w0 + 2 * n,
                   log := log ?w0 @ comparison_log lib data (ticks ?w0) 1
                            (zip (take n algo_combos) css)\<rparr>"
      by (elim exE conjE) (rule that; assumption)
    from fin n have l1: "log w1 = log w @ Figure 20 20 #
        comparison_log lib data (ticks w) 1 (zip algo_combos css)"
      by simp
    have a: "map (\<lambda>(algo, args, kw). construct lib algo args kw) algo_combos = replicate 7 (Inr ())"
      using ks n len by simp
    have b: "map (\<lambda>(algo, args, kw). fit_predict lib algo args kw data) algo_combos = map Inr lss"
      using fs n by simp
    have c: "new_events w w' =
             Figure 20 20 # comparison_log lib data (ticks w) 1 (zip algo_combos css)
             @ [TightLayout]"
      using w' l1 by (simp add: new_events_def)
    have d: "filter is_fit_predict (new_events w w') =
             map (\<lambda>(algo, args, kw). FitPredictCall algo args kw data) algo_combos"
      unfolding c using lcss n by (simp add: filter_fit_comparison_log)
    from a b cl c d show ?thesis by (intro exI conjI)
  qed
  have raising: "\<exists>n. n < length algo_combos
         \<and> list_all (\<lambda>c. fit_and_plot_outcome lib data c = Inr ()) (take n algo_combos)
         \<and> fit_and_plot_outcome lib data (algo_combos ! n) = Inl e
         \<and> filter is_fit_predict (new_events w w') =
             map (\<lambda>(algo, args, kw). FitPredictCall algo args kw data)
               (take n algo_combos @
                (if (\<lambda>(algo, args, kw). construct lib algo args kw) (algo_combos ! n) = Inr ()
                 then [algo_combos ! n] else []))"
    if r: "r = Inl e" for e
  proof (cases rule: compare_algos_cases [of lib data w])
    case (returns w1)
    with assms r show ?thesis by simp
  next
    case (raises e' w1)
    with assms r have e': "e' = e" and w': "w' = w1" by simp_all
    from comparison_loop_shape [OF raises(1), unfolded sum.case] obtain n lss css where
      lcss: "length css = n"
      and ok: "list_all (\<lambda>c. fit_and_plot_outcome lib data c = Inr ()) (take n algo_combos)"
      and n: "n < length algo_combos"
      and fin: "fit_and_plot lib data (1 + n, algo_combos ! n)
              (?w0\<lparr>ticks := ticks ?w0 + 2 * n,
                 log := log ?w0 @ comparison_log lib data (ticks ?w0) 1
                          (zip (take n algo_combos) css)\<rparr>)
              = (Inl e', w1)"
      by (elim exE conjE) (rule that; assumption)
    let ?wn = "?w0\<lparr>ticks := ticks ?w0 + 2 * n,
                 log := log ?w0 @ comparison_log lib data (ticks ?w0) 1
                          (zip (take n algo_combos) css)\<rparr>"
    from fin have it: "fit_and_plot lib data (1 + n, algo_combos ! n) ?wn = (Inl e, w')"
      unfolding e' w' .
    obtain algo args kw where c: "algo_combos ! n = (algo, args, kw)"
      by (cases "algo_combos ! n")
    from it have "fst (fit_and_plot lib data (1 + n, algo_combos ! n) ?wn) = Inl e" by simp
    then have out: "fit_and_plot_outcome lib data (algo_combos ! n) = Inl e"
      by (simp add: fst_fit_and_plot)
    from it [unfolded c] obtain es where
      l: "log w' = log ?wn @ Clock (time_time lib (ticks ?wn)) # Construct algo args kw # es"
      and f: "filter is_fit_predict es =
       (if construct lib algo args kw = Inr () then [FitPredictCall algo args kw data] else [])"
      by (rule fit_and_plot_Inl_D)
    from l have ne: "new_events w w' =
        Figure 20 20 # comparison_log lib data (ticks w) 1 (zip (take n algo_combos) css)
        @ Clock (time_time lib (ticks ?wn)) # Construct algo args kw # es"
      by (simp add: new_events_def)
    have lt: "length css = length (take n algo_combos)" using lcss n by simp
    have d: "filter is_fit_predict (new_events w w') =
             map (\<lambda>(algo, args, kw). FitPredictCall algo args kw data)
               (take n algo_combos @
                (if (\<lambda>(algo, args, kw). construct lib algo args kw) (algo_combos ! n) = Inr ()
                 then [algo_combos ! n] else []))"
      unfolding ne c using f by (simp add: filter_fit_comparison_log [OF lt])
    from n ok out d show ?thesis by (intro exI conjI)
  qed
  from names completed raising show ?thesis by (intro conjI impI allI)
qed

subsection \<open>Running the comparison with the small library\<close>

lemma demo_labels_demo_data: "demo_labels demo_data = [- 1, 0, 1]"
  by (simp add: demo_labels_def demo_data_def upt_conv_Cons)

lemma demo_labels_wide_data: "demo_labels wide_data = [- 1, 0, 1]"
  by (simp add: demo_labels_def wide_data_def upt_conv_Cons)

lemma demo_palette: "sns_color_palette demo_library name 2 = [(0, 0, 1), (1 / 16, 0, 1)]"
  by (simp add: demo_library_def upt_conv_Cons)

lemma demo_max: "np_max (np_unique [- 1, 0, 1]) = Inr 1"
  by (simp add: np_max_def np_unique_def)

lemma demo_colors:
  "colors [(0, 0, 1), (1 / 16, 0, 1)] [- 1, 0, 1] = Inr [(0, 0, 0), (0, 0, 1), (1 / 16, 0, 1)]"
  by (simp add: colors_def py_index_def)

lemma demo_data_T:
  "getitem (ndarray_T demo_data) 0 = Inr [0, 2, 4]"
  "getitem (ndarray_T demo_data) 1 = Inr [1, 3, 5]"
  by (simp_all add: getitem_def ndarray_T_def column_def demo_data_def py_index_def upt_conv_Cons)

lemma wide_data_T:
  "getitem (ndarray_T wide_data) 0 = Inr [0, 2, 4]"
  "getitem (ndarray_T wide_data) 1 = Inr [1, 3, 5]"
  by (simp_all add: getitem_def ndarray_T_def column_def wide_data_def py_index_def upt_conv_Cons)

lemma demo_columns:
  "column demo_data 0 = [0, 2, 4]" "column demo_data 1 = [1, 3, 5]"
  by (simp_all add: column_def demo_data_def)

lemma demo_plt_scatter:
  "plt_scatter demo_library x y (Named n) kw = Inr ()"
  "plt_scatter demo_library x y (Colours cs) kw =
     (if length cs = length x then Inr () else Inl ValueError)"
  by (simp_all add: demo_library_def)

lemma demo_scatter_T01_outcome:
  "scatter_T01_outcome demo_library demo_data (Named n) kw = Inr ()"
  "length cs = 3 \<Longrightarrow> scatter_T01_outcome demo_library demo_data (Colours cs) kw = Inr ()"
  by (simp_all add: scatter_T01_outcome_def demo_data_T demo_plt_scatter)

lemma demo_construct: "construct demo_library algo args kw = Inr ()"
  by (simp add: demo_library_def)

lemma demo_fit_predict: "fit_predict demo_library algo args kw demo_data = Inr [- 1, 0, 1]"
  by (simp add: demo_library_def demo_labels_demo_data)

lemma demo_fit_and_plot_outcome: "fit_and_plot_outcome demo_library demo_data c = Inr ()"
proof -
  obtain algo args kw where c: "c = (algo, args, kw)" by (cases c)
  show ?thesis
    unfolding c fit_and_plot_outcome_def
    by (simp add: fitted_labels_def demo_construct demo_fit_predict demo_max demo_palette
        demo_colors demo_scatter_T01_outcome)
qed

lemma first_failure_all:
  "(\<And>x. f x = Inr ()) \<Longrightarrow> first_failure f xs = Inr ()"
  by (induction xs) simp_all

lemma demo_compare_algos: "fst (compare_algos demo_library demo_data w) = Inr ()"
  unfolding fst_compare_algos by (rule first_failure_all) (rule demo_fit_and_plot_outcome)

lemma failing_fields:
  "construct failing_library = construct demo_library"
  "sns_color_palette failing_library = sns_color_palette demo_library"
  "plt_scatter failing_library = plt_scatter demo_library"
  "np_load failing_library = np_load demo_library"
  "wget failing_library = wget demo_library"
  "run_script failing_library = run_script demo_library"
  "time_time failing_library = time_time demo_library"
  by (simp_all add: failing_library_def)

lemma failing_fit_predict:
  "fit_predict failing_library algo args kw demo_data =
     (if algo = MeanShift then Inl (LibraryError ''MemoryError'') else Inr [- 1, 0, 1])"
  by (simp add: failing_library_def demo_labels_demo_data)

lemma failing_scatter_T01_outcome:
  "scatter_T01_outcome failing_library = scatter_T01_outcome demo_library"
  by (intro ext) (simp add: scatter_T01_outcome_def failing_fields)

lemma failing_fit_and_plot_outcome:
  "fit_and_plot_outcome failing_library demo_data (algo, args, kw) =
     (if algo = MeanShift then Inl (LibraryError ''MemoryError'') else Inr ())"
  unfolding fit_and_plot_outcome_def
  by (simp add: fitted_labels_def failing_fields demo_construct failing_fit_predict demo_max
      demo_palette demo_colors failing_scatter_T01_outcome demo_scatter_T01_outcome)

lemma failing_compare_algos:
  "fst (compare_algos failing_library demo_data w) = Inl (LibraryError ''MemoryError'')"
  unfolding fst_compare_algos
  by (simp add: algo_combos_def failing_fit_and_plot_outcome)

theorem comparison_fits_each_algorithm_once_witness:
  "fst (compare_algos demo_library demo_data empty_world) = Inr ()
   \<and> filter is_fit_predict
       (new_events empty_world (snd (compare_algos demo_library demo_data empty_world))) =
     [FitPredictCall KMeans [] [(''n_clusters'', PInt 6)] demo_data,
      FitPredictCall AffinityPropagation []
        [(''preference'', PFloat (- 5)), (''damping'', PFloat 0.95)] demo_data,
      FitPredictCall MeanShift [PFloat 0.175] [(''cluster_all'', PBool False)] demo_data,
      FitPredictCall SpectralClustering [] [(''n_clusters'', PInt 6)] demo_data,
      FitPredictCall AgglomerativeClustering []
        [(''n_clusters'', PInt 6), (''linkage'', PStr ''ward'')] demo_data,
      FitPredictCall DBSCAN [] [(''eps'', PFloat 0.025)] demo_data,
      FitPredictCall HDBSCAN [] [(''min_cluster_size'', PInt 15)] demo_data]
   \<and> fst (compare_algos failing_library demo_data empty_world) = Inl (LibraryError ''MemoryError'')
   \<and> filter is_fit_predict
       (new_events empty_world (snd (compare_algos failing_library demo_data empty_world))) =
     [FitPredictCall KMeans [] [(''n_clusters'', PInt 6)] demo_data,
      FitPredictCall AffinityPropagation []
        [(''preference'', PFloat (- 5)), (''damping'', PFloat 0.95)] demo_data,
      FitPredictCall MeanShift [PFloat 0.175] [(''cluster_all'', PBool False)] demo_data]"
proof -
  let ?w = "snd (compare_algos demo_library demo_data empty_world)"
  let ?v = "snd (compare_algos failing_library demo_data empty_world)"
  have h: "compare_algos demo_library demo_data empty_world = (Inr (), ?w)"
    by (simp add: prod_eq_iff demo_compare_algos)
  note t = comparison_fits_each_algorithm_once [OF h]
  from t [THEN conjunct2, THEN conjunct1, THEN mp, OF refl] obtain lss css where
    "filter is_fit_predict (new_events empty_world ?w) =
       map (\<lambda>(algo, args, kw). FitPredictCall algo args kw demo_data) algo_combos"
    by (elim exE conjE)
  then have a: "filter is_fit_predict (new_events empty_world ?w) =
     [FitPredictCall KMeans [] [(''n_clusters'', PInt 6)] demo_data,
      FitPredictCall AffinityPropagation []
        [(''preference'', PFloat (- 5)), (''damping'', PFloat 0.95)] demo_data,
      FitPredictCall MeanShift [PFloat 0.175] [(''cluster_all'', PBool False)] demo_data,
      FitPredictCall SpectralClustering [] [(''n_clusters'', PInt 6)] demo_data,
      FitPredictCall AgglomerativeClustering []
        [(''n_clusters'', PInt 6), (''linkage'', PStr ''ward'')] demo_data,
      FitPredictCall DBSCAN [] [(''eps'', PFloat 0.025)] demo_data,
      FitPredictCall HDBSCAN [] [(''min_cluster_size'', PInt 15)] demo_data]"
    by (simp add: algo_combos_def)
  have g: "compare_algos failing_library demo_data empty_world =
      (Inl (LibraryError ''MemoryError''), ?v)"
    by (simp add: prod_eq_iff failing_compare_algos)
  note u = comparison_fits_each_algorithm_once [OF g]
  from u [THEN conjunct2, THEN conjunct2, THEN spec, THEN mp, OF refl] obtain n where
    n: "n < length algo_combos"
    and ok: "list_all (\<lambda>c. fit_and_plot_outcome failing_library demo_data c = Inr ())
              (take n algo_combos)"
    and out: "fit_and_plot_outcome failing_library demo_data (algo_combos ! n) =
              Inl (LibraryError ''MemoryError'')"
    and f: "filter is_fit_predict (new_events empty_world ?v) =
             map (\<lambda>(algo, args, kw). FitPredictCall algo args kw demo_data)
               (take n algo_combos @
                (if (\<lambda>(algo, args, kw). construct failing_library algo args kw)
                      (algo_combos ! n) = Inr ()
                 then [algo_combos ! n] else []))"
    by (elim exE conjE)
  from n have "n < 7" by (simp add: algo_combos_def)
  then consider "n = 0" | "n = 1" | "n = 2" | "n = 3" | "n = 4" | "n = 5" | "n = 6"
    by arith
  then have n2: "n = 2"
  proof cases
    case 1
    with out show ?thesis by (simp add: algo_combos_def failing_fit_and_plot_outcome)
  next
    case 2
    with out show ?thesis by (simp add: algo_combos_def failing_fit_and_plot_outcome)
  next
    case 3
    then show ?thesis .
  next
    case 4
    with ok show ?thesis by (simp add: algo_combos_def failing_fit_and_plot_outcome)
  next
    case 5
    with ok show ?thesis by (simp add: algo_combos_def failing_fit_and_plot_outcome)
  next
    case 6
    with ok show ?thesis by (simp add: algo_combos_def failing_fit_and_plot_outcome)
  next
    case 7
    with ok show ?thesis by (simp add: algo_combos_def failing_fit_and_plot_outcome)
  qed
  from f have b: "filter is_fit_predict (new_events empty_world ?v) =
     [FitPredictCall KMeans [] [(''n_clusters'', PInt 6)] demo_data,
      FitPredictCall AffinityPropagation []
        [(''preference'', PFloat (- 5)), (''damping'', PFloat 0.95)] demo_data,
      FitPredictCall MeanShift [PFloat 0.175] [(''cluster_all'', PBool False)] demo_data]"
    unfolding n2 by (simp add: algo_combos_def failing_fields demo_construct)
  from demo_compare_algos a failing_compare_algos b show ?thesis by (intro conjI)
qed

subsection \<open>Two decimal places\<close>







declare show_nat.simps [simp del]





subsection \<open>The text of a subplot\<close>











subsection \<open>The events of a run\<close>

lemma emits_onlyI:
  assumes "\<And>w r w'. m w = (r, w') \<Longrightarrow> \<exists>es. log w' = log w @ es \<and> list_all P es"
  shows "emits_only P m"
  using assms unfolding emits_only_def by blast

lemma emits_onlyD:
  assumes "emits_only P m" "m w = (r, w')"
  obtains es where "log w' = log w @ es" "list_all P es"
  using assms unfolding emits_only_def by blast

lemma emits_only_new_events:
  assumes "emits_only P m"
  shows "list_all P (new_events w (snd (m w)))"
proof -
  have "m w = (fst (m w), snd (m w))" by simp
  with assms obtain es where "log (snd (m w)) = log w @ es" "list_all P es"
    by (rule emits_onlyD)
  then show ?thesis by (simp add: new_events_def)
qed

lemma emits_only_seq:
  assumes m: "emits_only P m"
    and post: "\<And>w a w'. m w = (Inr a, w') \<Longrightarrow> Q a"
    and f: "\<And>a. Q a \<Longrightarrow> emits_only P (f a)"
  shows "emits_only P (seq m f)"
proof (rule emits_onlyI)
  fix w r w'
  assume run: "seq m f w = (r, w')"
  obtain r1 w1 where mw: "m w = (r1, w1)" by (cases "m w")
  from m mw obtain es1 where es1: "log w1 = log w @ es1" "list_all P es1"
    by (rule emits_onlyD)
  show "\<exists>es. log w' = log w @ es \<and> list_all P es"
  proof (cases r1)
    case (Inl e)
    with mw run have "w' = w1" by (simp add: seq_def)
    with es1 have "log w' = log w @ es1 \<and> list_all P es1" by simp
    then show ?thesis by (rule exI)
  next
    case (Inr a)
    with mw run have fa: "f a w1 = (r, w')" by (simp add: seq_def)
    from mw Inr have "Q a" using post by blast
    from f [OF this] fa obtain es2 where "log w' = log w1 @ es2" "list_all P es2"
      by (rule emits_onlyD)
    with es1 have "log w' = log w @ (es1 @ es2) \<and> list_all P (es1 @ es2)" by simp
    then show ?thesis by (rule exI)
  qed
qed

lemma emits_only_seq':
  assumes "emits_only P m" and "\<And>a. emits_only P (f a)"
  shows "emits_only P (seq m f)"
  by (rule emits_only_seq [where Q = "\<lambda>_. True"]) (simp_all add: assms)

lemma emits_only_lift: "(\<And>e. P (Raised e)) \<Longrightarrow> emits_only P (lift r)"
  by (rule emits_onlyI) (cases r; auto)

lemma emits_only_py_raise: "P (Raised e) \<Longrightarrow> emits_only P (py_raise e)"
  by (rule emits_onlyI) (auto simp: py_raise_def)

lemma emits_only_emit: "P e \<Longrightarrow> emits_only P (emit e)"
  by (rule emits_onlyI) (auto simp: emit_def)

lemma emits_only_call: "P c \<Longrightarrow> (\<And>e. P (Raised e)) \<Longrightarrow> emits_only P (call c r)"
  by (rule emits_onlyI) (cases r; auto)

lemma emits_only_py_time: "(\<And>t. P (Clock t)) \<Longrightarrow> emits_only P (py_time lib)"
  by (rule emits_onlyI) (auto simp: py_time_def)

lemma emits_only_seq_lift:
  assumes "\<And>e. P (Raised e)" and "\<And>a. r = Inr a \<Longrightarrow> emits_only P (f a)"
  shows "emits_only P (seq (lift r) f)"
proof (rule emits_only_seq [where Q = "\<lambda>a. r = Inr a"])
  show "emits_only P (lift r)" by (rule emits_only_lift) (rule assms(1))
  show "r = Inr a" if "lift r w = (Inr a, w')" for w a w'
    using lift_Inr_D [OF that] by simp
  show "emits_only P (f a)" if "r = Inr a" for a by (rule assms(2)) (rule that)
qed

lemma emits_only_seq_call:
  assumes "P c" and "\<And>e. P (Raised e)" and "\<And>a. r = Inr a \<Longrightarrow> emits_only P (f a)"
  shows "emits_only P (seq (call c r) f)"
proof (rule emits_only_seq [where Q = "\<lambda>a. r = Inr a"])
  show "emits_only P (call c r)" by (rule emits_only_call) (rule assms(1), rule assms(2))
  show "r = Inr a" if "call c r w = (Inr a, w')" for w a w'
    using call_Inr_D [OF that] by simp
  show "emits_only P (f a)" if "r = Inr a" for a by (rule assms(3)) (rule that)
qed

lemma emits_only_for_each:
  assumes "\<And>x. x \<in> set xs \<Longrightarrow> emits_only P (body x)"
  shows "emits_only P (for_each body xs)"
  using assms
proof (induction xs)
  case Nil
  show ?case by (rule emits_onlyI) simp
next
  case (Cons x xs)
  have "for_each body (x # xs) = seq (body x) (\<lambda>_. for_each body xs)"
    by (rule ext) (simp add: seq_def split: prod.splits sum.splits)
  moreover have "emits_only P (seq (body x) (\<lambda>_. for_each body xs))"
  proof (rule emits_only_seq')
    show "emits_only P (body x)" by (rule Cons.prems) simp
    show "emits_only P (for_each body xs)" by (rule Cons.IH) (rule Cons.prems, simp)
  qed
  ultimately show ?case by simp
qed

lemma rows_T_two_D:
  assumes "rows (ndarray_T a) = [x, y]"
  shows "ncols a = 2" and "x = column a 0" and "y = column a 1"
proof -
  from assms have m: "map (column a) [0..<ncols a] = [x, y]" by (simp add: ndarray_T_def)
  then have "length (map (column a) [0..<ncols a]) = length [x, y]" by (rule arg_cong)
  then show two: "ncols a = 2" by simp
  have "[0..<2] = [0, 1]" by (simp add: upt_conv_Cons)
  with m two show "x = column a 0" and "y = column a 1" by simp_all
qed

lemma emits_only_scatter_T01:
  assumes "P (Scatter (column a 0) (column a 1) c kw)" and "\<And>e. P (Raised e)"
  shows "emits_only P (scatter_T01 lib a c kw)"
  unfolding scatter_T01_def
proof (rule emits_only_seq_lift)
  fix x
  assume x: "getitem (ndarray_T a) 0 = Inr x"
  show "emits_only P (seq (lift (getitem (ndarray_T a) 1))
           (\<lambda>y. call (Scatter x y c kw) (plt_scatter lib x y c kw)))"
  proof (rule emits_only_seq_lift)
    fix y
    assume y: "getitem (ndarray_T a) 1 = Inr y"
    from getitem_T_0 [OF x] getitem_T_1 [OF y] assms(1) have "P (Scatter x y c kw)" by simp
    then show "emits_only P (call (Scatter x y c kw) (plt_scatter lib x y c kw))"
      by (rule emits_only_call) (rule assms(2))
  qed (rule assms(2))
qed (rule assms(2))

lemma emits_only_scatter_star:
  assumes "P (Scatter (column a 0) (column a 1) c kw)" and "\<And>e. P (Raised e)"
  shows "emits_only P (scatter_star lib (ndarray_T a) c kw)"
proof (cases "\<exists>x y. rows (ndarray_T a) = [x, y]")
  case True
  then obtain x y where r: "rows (ndarray_T a) = [x, y]" by (elim exE)
  from rows_T_two_D [OF r] assms(1) have "P (Scatter x y c kw)" by simp
  then have "emits_only P (call (Scatter x y c kw) (plt_scatter lib x y c kw))"
    by (rule emits_only_call) (rule assms(2))
  then show ?thesis by (simp add: scatter_star_def r)
next
  case False
  then have "scatter_star lib (ndarray_T a) c kw = py_raise TypeError"
    by (auto simp: scatter_star_def split: list.splits)
  then show ?thesis by (simp add: emits_only_py_raise assms(2))
qed

lemma emits_only_seq_construct_fit_predict:
  assumes "P (Construct algo args kw)" and "P (FitPredictCall algo args kw data)"
    and "\<And>e. P (Raised e)"
    and "\<And>labels. fit_predict lib algo args kw data = Inr labels \<Longrightarrow> emits_only P (f labels)"
  shows "emits_only P (seq (construct_fit_predict lib algo args kw data) f)"
proof (rule emits_only_seq [where Q = "\<lambda>labels. fit_predict lib algo args kw data = Inr labels"])
  show "emits_only P (construct_fit_predict lib algo args kw data)"
    unfolding construct_fit_predict_def
    by (intro emits_only_seq' emits_only_call assms(1) assms(2) assms(3))
  show "fit_predict lib algo args kw data = Inr labels"
    if "construct_fit_predict lib algo args kw data w = (Inr labels, w')" for w labels w'
    using that by (rule construct_fit_predict_Inr_D)
  show "emits_only P (f labels)" if "fit_predict lib algo args kw data = Inr labels" for labels
    by (rule assms(4)) (rule that)
qed

lemma emits_only_seq_construct_fit:
  assumes "P (Construct algo args kw)" and "P (FitCall algo args kw data)"
    and "\<And>e. P (Raised e)"
    and "\<And>clusterer. fit lib algo args kw data = Inr clusterer \<Longrightarrow> emits_only P (f clusterer)"
  shows "emits_only P (seq (construct_fit lib algo args kw data) f)"
proof (rule emits_only_seq [where Q = "\<lambda>clusterer. fit lib algo args kw data = Inr clusterer"])
  show "emits_only P (construct_fit lib algo args kw data)"
    unfolding construct_fit_def
    by (intro emits_only_seq' emits_only_call assms(1) assms(2) assms(3))
  show "fit lib algo args kw data = Inr clusterer"
    if "construct_fit lib algo args kw data w = (Inr clusterer, w')" for w clusterer w'
    using that by (rule construct_fit_Inr_D)
  show "emits_only P (f clusterer)" if "fit lib algo args kw data = Inr clusterer" for clusterer
    by (rule assms(4)) (rule that)
qed

end
